theory Spec2Isabelle
  imports Complex_Main
begin

section \<open>Terrain pipeline of \<open>src/orbits/driver.js\<close>: the model\<close>

text \<open>
  The terrain code is the second script of \<open>src/orbits/driver.js\<close>: the function
  \<open>createTerrain\<close> and the click handler registered in \<open>setup\<close>. Every definition below
  follows one statement or one block of that script.
\<close>

subsection \<open>JavaScript numbers and errors\<close>

text \<open>
  A JavaScript number is a finite value, \<open>NaN\<close>, \<open>+Infinity\<close> or \<open>-Infinity\<close>. Finite
  arithmetic is taken exact (no rounding), and zero carries no sign: it divides like
  \<open>+0\<close>, the zero that \<open>max - min\<close> yields for equal operands.
\<close>

datatype jsnum = Num real | NaN | PInf | NInf

text \<open>The exceptions the script can raise.\<close>

datatype error = ReferenceError | TypeError | RangeError

definition bindE :: "error + 'a \<Rightarrow> ('a \<Rightarrow> error + 'b) \<Rightarrow> error + 'b" where
  "bindE m f = (case m of Inl e \<Rightarrow> Inl e | Inr x \<Rightarrow> f x)"

fun js_neg :: "jsnum \<Rightarrow> jsnum" where
  "js_neg (Num a) = Num (- a)"
| "js_neg NaN = NaN"
| "js_neg PInf = NInf"
| "js_neg NInf = PInf"

fun js_add :: "jsnum \<Rightarrow> jsnum \<Rightarrow> jsnum" where
  "js_add (Num a) (Num b) = Num (a + b)"
| "js_add NaN _ = NaN"
| "js_add _ NaN = NaN"
| "js_add PInf NInf = NaN"
| "js_add NInf PInf = NaN"
| "js_add PInf _ = PInf"
| "js_add _ PInf = PInf"
| "js_add NInf _ = NInf"
| "js_add _ NInf = NInf"

definition js_sub :: "jsnum \<Rightarrow> jsnum \<Rightarrow> jsnum" where
  "js_sub a b = js_add a (js_neg b)"

fun js_mul :: "jsnum \<Rightarrow> jsnum \<Rightarrow> jsnum" where
  "js_mul (Num a) (Num b) = Num (a * b)"
| "js_mul NaN _ = NaN"
| "js_mul _ NaN = NaN"
| "js_mul PInf (Num b) = (if b = 0 then NaN else if 0 < b then PInf else NInf)"
| "js_mul NInf (Num b) = (if b = 0 then NaN else if 0 < b then NInf else PInf)"
| "js_mul (Num a) PInf = (if a = 0 then NaN else if 0 < a then PInf else NInf)"
| "js_mul (Num a) NInf = (if a = 0 then NaN else if 0 < a then NInf else PInf)"
| "js_mul PInf PInf = PInf"
| "js_mul PInf NInf = NInf"
| "js_mul NInf PInf = NInf"
| "js_mul NInf NInf = PInf"

fun js_div :: "jsnum \<Rightarrow> jsnum \<Rightarrow> jsnum" where
  "js_div (Num a) (Num b) =
     (if b = 0 then (if a = 0 then NaN else if 0 < a then PInf else NInf)
      else Num (a / b))"
| "js_div NaN _ = NaN"
| "js_div _ NaN = NaN"
| "js_div (Num a) PInf = Num 0"
| "js_div (Num a) NInf = Num 0"
| "js_div PInf (Num b) = (if 0 \<le> b then PInf else NInf)"
| "js_div NInf (Num b) = (if 0 \<le> b then NInf else PInf)"
| "js_div PInf PInf = NaN"
| "js_div PInf NInf = NaN"
| "js_div NInf PInf = NaN"
| "js_div NInf NInf = NaN"

text \<open>\<open>a < b\<close>; every comparison with \<open>NaN\<close> is false.\<close>

fun js_lt :: "jsnum \<Rightarrow> jsnum \<Rightarrow> bool" where
  "js_lt (Num a) (Num b) = (a < b)"
| "js_lt NaN _ = False"
| "js_lt _ NaN = False"
| "js_lt _ NInf = False"
| "js_lt NInf _ = True"
| "js_lt PInf _ = False"
| "js_lt _ PInf = True"

definition js_max :: "jsnum \<Rightarrow> jsnum \<Rightarrow> jsnum" where
  "js_max a b = (if a = NaN \<or> b = NaN then NaN else if js_lt a b then b else a)"

definition js_min :: "jsnum \<Rightarrow> jsnum \<Rightarrow> jsnum" where
  "js_min a b = (if a = NaN \<or> b = NaN then NaN else if js_lt b a then b else a)"

text \<open>
  \<open>Math.max.apply(_, xs)\<close> and \<open>Math.min.apply(_, xs)\<close>: the largest and the smallest
  argument, \<open>-Infinity\<close> and \<open>+Infinity\<close> for no argument, \<open>NaN\<close> if any argument is.
\<close>

definition Math_max :: "jsnum list \<Rightarrow> jsnum" where
  "Math_max xs = foldl js_max NInf xs"

definition Math_min :: "jsnum list \<Rightarrow> jsnum" where
  "Math_min xs = foldl js_min PInf xs"

text \<open>\<open>a || b\<close> on numbers: \<open>0\<close> and \<open>NaN\<close> are the falsy numbers.\<close>

definition js_or :: "jsnum \<Rightarrow> jsnum \<Rightarrow> jsnum" where
  "js_or a b = (if a = NaN \<or> a = Num 0 then b else a)"

text \<open>
  A value is a number or \<open>undefined\<close>. \<open>v[k]\<close> on a primitive number finds no indexed
  property and yields \<open>undefined\<close>; on \<open>undefined\<close> it throws a \<open>TypeError\<close>.
\<close>

datatype jsval = JNumber jsnum | JUndefined

fun get_property :: "jsval \<Rightarrow> nat \<Rightarrow> error + jsval" where
  "get_property (JNumber x) k = Inr JUndefined"
| "get_property JUndefined k = Inl TypeError"

definition index2 :: "jsval \<Rightarrow> nat \<Rightarrow> nat \<Rightarrow> error + jsval" where
  "index2 v i j = bindE (get_property v i) (\<lambda>r. get_property r j)"

fun ToNumber :: "jsval \<Rightarrow> jsnum" where
  "ToNumber (JNumber x) = x"
| "ToNumber JUndefined = NaN"

subsection \<open>The counting loop\<close>

text \<open>\<open>for (let i = i0; i < n; i += 1) body\<close>, stopping at the first exception.\<close>

function for_loop :: "nat \<Rightarrow> nat \<Rightarrow> (nat \<Rightarrow> 's \<Rightarrow> error + 's) \<Rightarrow> 's \<Rightarrow> error + 's" where
  "for_loop i n body s =
     (if i < n then (case body i s of Inl e \<Rightarrow> Inl e | Inr s' \<Rightarrow> for_loop (i + 1) n body s')
      else Inr s)"
  by pat_completeness auto
termination
  by (relation "measure (\<lambda>(i, n, body, s). n - i)") auto

subsection \<open>createTerrain\<close>

text \<open>
  The geometry object \<open>{triangles: [...], attributes: [[...], [...]]}\<close>;
  \<open>attributes[0]\<close> holds the positions and \<open>attributes[1]\<close> the colors.
\<close>

record geom =
  triangles :: "real list"
  attributes :: "real list list"

text \<open>\<open>ge.attributes[k].push(vs)\<close>; \<open>attributes[k]\<close> is \<open>undefined\<close> past the end.\<close>

definition push_attribute :: "geom \<Rightarrow> nat \<Rightarrow> real list \<Rightarrow> error + geom" where
  "push_attribute ge k vs =
     (if k < length (attributes ge)
      then Inr (ge\<lparr>attributes := (attributes ge)[k := attributes ge ! k @ vs]\<rparr>)
      else Inl TypeError)"

text \<open>
  The loop of \<open>createTerrain\<close>. The body pushes the three indices onto
  \<open>terrain.triangles\<close> and then pushes onto \<open>g.attributes\<close>: \<open>g\<close> is a global variable
  that no source file declares, so it is a parameter here, \<open>None\<close> when it is unbound
  (reading it throws a \<open>ReferenceError\<close>).
\<close>

function createTerrain_loop ::
  "int \<Rightarrow> int \<Rightarrow> geom \<Rightarrow> geom option \<Rightarrow> error + geom \<times> geom option" where
  "createTerrain_loop i gridsize terrain g =
     (if i < (gridsize - 1) * (gridsize - 1) * 2 then
        (let terrain' = terrain\<lparr>triangles := triangles terrain @
                             [of_int (i * 3), of_int (i * 3 + 1), of_int (i * 3 + 2)]\<rparr>
         in case g of
              None \<Rightarrow> Inl ReferenceError
            | Some g0 \<Rightarrow>
                (case push_attribute g0 0 [of_int i, of_int (i + 1), of_int (i + gridsize)] of
                   Inl e \<Rightarrow> Inl e
                 | Inr g1 \<Rightarrow>
                     (case push_attribute g1 1 [0.8, 0.6, 0.4] of
                        Inl e \<Rightarrow> Inl e
                      | Inr g2 \<Rightarrow> createTerrain_loop (i + 1) gridsize terrain' (Some g2))))
      else Inr (terrain, g))"
  by pat_completeness auto
termination
  by (relation "measure (\<lambda>(i, gridsize, terrain, g).
        nat ((gridsize - 1) * (gridsize - 1) * 2 - i))") auto

subsection \<open>The height grids and their storage\<close>

text \<open>
  Arrays are objects: the outer array of a grid holds references to its rows. The
  store \<open>arrays\<close> maps an address to the row kept there; \<open>grid\<close> and \<open>grid_normals\<close>
  are the two outer arrays, as lists of addresses.
\<close>

record heap_state =
  arrays :: "nat \<Rightarrow> jsnum list"
  grid :: "nat list"
  grid_normals :: "nat list"

text \<open>The store before anything is allocated.\<close>

definition empty_store :: "nat \<Rightarrow> jsnum list" where
  "empty_store a = []"

text \<open>
  \<open>createTerrain(gridsize, faults)\<close>. The global grids are in scope of the function
  (the parameter \<open>st\<close>); the body never mentions them, nor \<open>faults\<close>. The result is the
  returned object together with the new value of \<open>g\<close>.
\<close>

definition createTerrain ::
  "int \<Rightarrow> jsnum \<Rightarrow> heap_state \<Rightarrow> geom option \<Rightarrow> error + geom \<times> geom option" where
  "createTerrain gridsize faults st g =
     createTerrain_loop 0 gridsize \<lparr>triangles = [], attributes = [[], []]\<rparr> g"

text \<open>
  \<open>new Array(len)\<close> throws a \<open>RangeError\<close> unless \<open>len\<close> is an integer in
  \<open>[0, 2\<^sup>3\<^sup>2 - 1]\<close>; the result is the length of the new array.
\<close>

definition new_Array :: "jsnum \<Rightarrow> error + nat" where
  "new_Array len =
     (case len of
        Num x \<Rightarrow> if x = of_int \<lfloor>x\<rfloor> \<and> 0 \<le> x \<and> x < 2 ^ 32 then Inr (nat \<lfloor>x\<rfloor>)
                 else Inl RangeError
      | _ \<Rightarrow> Inl RangeError)"

text \<open>
  \<open>grid = new Array(gridsize).fill(new Array(gridsize).fill(0))\<close> and the same for
  \<open>grid_normals\<close>: the argument of \<open>fill\<close> is evaluated once, so one row is allocated
  per grid (at the addresses 0 and 1) and every slot of the outer array refers to it.
\<close>

definition new_grids :: "jsnum \<Rightarrow> error + heap_state" where
  "new_grids gridsize =
     bindE (new_Array gridsize) (\<lambda>n.
       Inr \<lparr>arrays = empty_store(0 := replicate n (Num 0), 1 := replicate n (Num 0)),
            grid = replicate n 0,
            grid_normals = replicate n 1\<rparr>)"

text \<open>
  Reading \<open>a[i][j]\<close> as a number and writing \<open>a[i][j] = v\<close>, for an outer array \<open>a\<close>.
  \<open>a[i]\<close> past the end is \<open>undefined\<close> and indexing it throws; a column past the end of
  the row reads \<open>undefined\<close>, which is \<open>NaN\<close> as a number, and a write there extends the
  row (the skipped slots read \<open>NaN\<close> as well).
\<close>

definition get_cell :: "heap_state \<Rightarrow> nat list \<Rightarrow> nat \<Rightarrow> nat \<Rightarrow> error + jsnum" where
  "get_cell st a i j =
     (if i < length a
      then (let row = arrays st (a ! i) in Inr (if j < length row then row ! j else NaN))
      else Inl TypeError)"

definition set_cell :: "heap_state \<Rightarrow> nat list \<Rightarrow> nat \<Rightarrow> nat \<Rightarrow> jsnum \<Rightarrow> error + heap_state" where
  "set_cell st a i j v =
     (if i < length a
      then (let row = arrays st (a ! i);
                row' = (if j < length row then row[j := v]
                        else row @ replicate (j - length row) NaN @ [v])
            in Inr (st\<lparr>arrays := (arrays st)(a ! i := row')\<rparr>))
      else Inl TypeError)"

subsection \<open>Input handling\<close>

text \<open>
  \<open>Number(value) || 2\<close> and \<open>Number(value) || 0\<close>; the argument is the result of
  \<open>Number(value)\<close>, which is \<open>NaN\<close> for a text that is not a number.
\<close>

definition gridsize_input :: "jsnum \<Rightarrow> jsnum" where
  "gridsize_input v = js_or v (Num 2)"

definition faults_input :: "jsnum \<Rightarrow> jsnum" where
  "faults_input v = js_or v (Num 0)"

subsection \<open>Applying faults\<close>

text \<open>
  \<open>dot\<close> and \<open>sub\<close> are called by the script and defined in no source file: they are
  parameters, and may throw.
\<close>

record mathlib =
  lib_sub :: "jsnum list \<Rightarrow> jsnum list \<Rightarrow> error + jsnum list"
  lib_dot :: "jsnum list \<Rightarrow> jsnum list \<Rightarrow> error + jsnum"

text \<open>
  \<open>ToIndex\<close> of a finite number truncates it towards zero and throws a \<open>RangeError\<close>
  outside \<open>[0, 2\<^sup>5\<^sup>3 - 1]\<close>.
\<close>

definition ToIndex :: "real \<Rightarrow> error + nat" where
  "ToIndex v =
     (let k = (if 0 \<le> v then \<lfloor>v\<rfloor> else \<lceil>v\<rceil>)
      in if k < 0 \<or> 2 ^ 53 - 1 < k then Inl RangeError else Inr (nat k))"

text \<open>
  \<open>new Float32Array(len, ...)\<close> and \<open>new Int32Array(len, ...)\<close> with a number as first
  argument: a zero-filled array of length \<open>ToIndex(len)\<close>; the other arguments are
  ignored.
\<close>

definition new_TypedArray :: "real \<Rightarrow> error + jsnum list" where
  "new_TypedArray len = bindE (ToIndex len) (\<lambda>n. Inr (replicate n (Num 0)))"

text \<open>
  The value \<open>val\<close> of the inner loop body:
  \<open>vertex = new Int32Array(x, y); val = dot(sub(vertex, p), normal)\<close>.
\<close>

definition fault_val :: "mathlib \<Rightarrow> real \<Rightarrow> jsnum list \<Rightarrow> jsnum list \<Rightarrow> error + jsnum" where
  "fault_val L x p normal =
     bindE (new_TypedArray x) (\<lambda>vertex.
     bindE (lib_sub L vertex p) (\<lambda>d.
     lib_dot L d normal))"

text \<open>The inner loop body at the vertex \<open>(i, j)\<close>.\<close>

definition fault_vertex ::
  "mathlib \<Rightarrow> real \<Rightarrow> jsnum list \<Rightarrow> jsnum list \<Rightarrow> nat \<Rightarrow> nat \<Rightarrow> heap_state \<Rightarrow> error + heap_state" where
  "fault_vertex L x p normal i j st =
     bindE (fault_val L x p normal) (\<lambda>val.
       if js_lt val (Num 0) then
         bindE (get_cell st (grid st) i j) (\<lambda>v. set_cell st (grid st) i j (js_sub v (Num 0.01)))
       else if js_lt (Num 0) val then
         bindE (get_cell st (grid st) i j) (\<lambda>v. set_cell st (grid st) i j (js_add v (Num 0.01)))
       else Inr st)"

text \<open>
  One fault; \<open>r1\<close>, \<open>r2\<close>, \<open>r3\<close> are the three results of \<open>Math.random()\<close>.
\<close>

definition apply_fault ::
  "mathlib \<Rightarrow> nat \<Rightarrow> real \<Rightarrow> real \<Rightarrow> real \<Rightarrow> heap_state \<Rightarrow> error + heap_state" where
  "apply_fault L gridsize r1 r2 r3 st =
     (let x = r1 * real gridsize;
          y = r2 * real gridsize
      in bindE (new_TypedArray x) (\<lambda>p.
         let theta = r3 * pi * 2
         in bindE (new_TypedArray (cos theta)) (\<lambda>normal.
            for_loop 0 gridsize (\<lambda>i.
              for_loop 0 gridsize (\<lambda>j. fault_vertex L x p normal i j)) st)))"

text \<open>
  \<open>for (let fault = 0; fault < faults; fault += 1)\<close>. \<open>rnd k\<close> is the result of the
  \<open>k\<close>-th call of \<open>Math.random()\<close>. With \<open>faults = Infinity\<close> the loop ends only if a
  fault throws; the result of a loop that does not end is \<open>None\<close>.
\<close>

partial_function (option) fault_loop ::
  "mathlib \<Rightarrow> (nat \<Rightarrow> real) \<Rightarrow> nat \<Rightarrow> jsnum \<Rightarrow> jsnum \<Rightarrow> nat \<Rightarrow> heap_state
     \<Rightarrow> (error + heap_state) option" where
  "fault_loop L rnd gridsize fault faults k st =
     (if js_lt fault faults then
        (case apply_fault L gridsize (rnd k) (rnd (k + 1)) (rnd (k + 2)) st of
           Inl e \<Rightarrow> Some (Inl e)
         | Inr st' \<Rightarrow> fault_loop L rnd gridsize (js_add fault (Num 1)) faults (k + 3) st')
      else Some (Inr st))"

subsection \<open>Normalizing the heights\<close>

definition normalize_heights :: "nat \<Rightarrow> heap_state \<Rightarrow> error + heap_state" where
  "normalize_heights gridsize st =
     (let maxRow = map (\<lambda>row. Math_max (arrays st row)) (grid st);
          maxv = Math_max maxRow;
          minRow = map (\<lambda>row. Math_min (arrays st row)) (grid st);
          minv = Math_min maxRow
      in for_loop 0 gridsize (\<lambda>i.
           for_loop 0 gridsize (\<lambda>j st'.
             bindE (get_cell st' (grid st') i j) (\<lambda>v.
               set_cell st' (grid st') i j
                 (js_div (js_sub v (js_div (js_add maxv minv) (Num 2))) (js_sub maxv minv))))) st)"

subsection \<open>Grid-based normals\<close>

text \<open>
  The body of the normals loop. The neighbours are read from \<open>gridsize\<close>, the number,
  and not from \<open>grid\<close>.
\<close>

definition normal_vertex :: "nat \<Rightarrow> nat \<Rightarrow> nat \<Rightarrow> heap_state \<Rightarrow> error + heap_state" where
  "normal_vertex gridsize i j st =
     (let gs = JNumber (Num (real gridsize)) in
      bindE (if i = 0 then
               bindE (index2 gs i j) (\<lambda>n. bindE (index2 gs (i + 1) j) (\<lambda>s. Inr (n, s)))
             else if int i = int gridsize - 1 then
               bindE (index2 gs (i - 1) j) (\<lambda>n. bindE (index2 gs i j) (\<lambda>s. Inr (n, s)))
             else
               bindE (index2 gs (i + 1) j) (\<lambda>n. bindE (index2 gs (i + 1) j) (\<lambda>s. Inr (n, s))))
        (\<lambda>(n, s).
      bindE (if j = 0 then
               bindE (index2 gs i j) (\<lambda>w. bindE (index2 gs i (j + 1)) (\<lambda>e. Inr (w, e)))
             else if int j = int gridsize - 1 then
               bindE (index2 gs i j) (\<lambda>e. bindE (index2 gs i (j - 1)) (\<lambda>w. Inr (w, e)))
             else
               bindE (index2 gs i (j - 1)) (\<lambda>w. bindE (index2 gs i (j + 1)) (\<lambda>e. Inr (w, e))))
        (\<lambda>(w, e).
      set_cell st (grid_normals st) i j
        (js_mul (js_sub (ToNumber n) (ToNumber s)) (js_sub (ToNumber w) (ToNumber e))))))"

definition compute_normals :: "nat \<Rightarrow> heap_state \<Rightarrow> error + heap_state" where
  "compute_normals gridsize st =
     for_loop 0 gridsize (\<lambda>i. for_loop 0 gridsize (\<lambda>j. normal_vertex gridsize i j)) st"

subsection \<open>The click handler\<close>

text \<open>
  The whole handler, from the two numbers read from the form. \<open>None\<close>: the handler
  does not return.
\<close>

definition click_handler ::
  "mathlib \<Rightarrow> (nat \<Rightarrow> real) \<Rightarrow> jsnum \<Rightarrow> jsnum \<Rightarrow> (error + heap_state) option" where
  "click_handler L rnd gridsize_value faults_value =
     (let gridsize = gridsize_input gridsize_value;
          faults = faults_input faults_value
      in case new_grids gridsize of
           Inl e \<Rightarrow> Some (Inl e)
         | Inr st0 \<Rightarrow>
             (let n = length (grid st0)
              in case fault_loop L rnd n (Num 0) faults 0 st0 of
                   None \<Rightarrow> None
                 | Some (Inl e) \<Rightarrow> Some (Inl e)
                 | Some (Inr st1) \<Rightarrow>
                     Some (bindE (normalize_heights n st1) (compute_normals n))))"

subsection \<open>The states of the pipeline\<close>

text \<open>
  The states the click handler goes through for a grid size \<open>n\<close>: the state after the
  two allocations, and every state reached from there by the assignments of the handler,
  which are all of the form \<open>grid[i][j] = v\<close> (the fault loop and the normalization) or
  \<open>grid_normals[i][j] = v\<close> (the normals loop), with \<open>i\<close> and \<open>j\<close> below \<open>n\<close>.
\<close>

inductive pipeline_state :: "nat \<Rightarrow> heap_state \<Rightarrow> bool" for n :: nat where
  allocated: "new_grids (Num (real n)) = Inr st \<Longrightarrow> pipeline_state n st"
| grid_write:
    "pipeline_state n st \<Longrightarrow> i < n \<Longrightarrow> j < n \<Longrightarrow> set_cell st (grid st) i j v = Inr st'
       \<Longrightarrow> pipeline_state n st'"
| normals_write:
    "pipeline_state n st \<Longrightarrow> i < n \<Longrightarrow> j < n \<Longrightarrow> set_cell st (grid_normals st) i j v = Inr st'
       \<Longrightarrow> pipeline_state n st'"

subsection \<open>The vector operations and the fault rule of the specification\<close>

text \<open>
  Modelled from the spec: \<open>sub\<close> and \<open>dot\<close> are called in \<open>src/orbits/driver.js\<close> and
  defined in no file under \<open>src/\<close>. The specification uses them as the subtraction of
  two vectors and their dot product (\<open>val = dot((i, j) - p, nv)\<close>); \<open>sub\<close> first.
\<close>

definition spec_sub :: "jsnum list \<Rightarrow> jsnum list \<Rightarrow> error + jsnum list" where
  "spec_sub xs ys = Inr (map (\<lambda>(a, b). js_sub a b) (zip xs ys))"

text \<open>
  Modelled from the spec: \<open>dot\<close>, missing from \<open>src/\<close>, as the dot product of two
  vectors.
\<close>

definition spec_dot :: "jsnum list \<Rightarrow> jsnum list \<Rightarrow> error + jsnum" where
  "spec_dot xs ys = Inr (foldl js_add (Num 0) (map (\<lambda>(a, b). js_mul a b) (zip xs ys)))"

text \<open>Modelled from the spec: the two missing operations together.\<close>

definition spec_lib :: mathlib where
  "spec_lib = \<lparr>lib_sub = spec_sub, lib_dot = spec_dot\<rparr>"

text \<open>
  The signed distance in the words of the specification, for the vertex \<open>(i, j)\<close>, the
  fault point \<open>p = (px, py)\<close> and the normal \<open>nv = (cos \<theta>, sin \<theta>)\<close>:
  \<open>val = dot((i, j) - p, nv)\<close>.
\<close>

definition spec_val :: "nat \<Rightarrow> nat \<Rightarrow> real \<Rightarrow> real \<Rightarrow> real \<Rightarrow> real" where
  "spec_val i j px py theta = (real i - px) * cos theta + (real j - py) * sin theta"

text \<open>
  The largest and the smallest elevation of a grid, \<open>max(elevation)\<close> and
  \<open>min(elevation)\<close> in the words of the specification, computed over all rows with
  \<open>Math.max\<close> and \<open>Math.min\<close>.
\<close>

definition elevation_max :: "heap_state \<Rightarrow> jsnum" where
  "elevation_max st = Math_max (map (\<lambda>row. Math_max (arrays st row)) (grid st))"

definition elevation_min :: "heap_state \<Rightarrow> jsnum" where
  "elevation_min st = Math_min (map (\<lambda>row. Math_min (arrays st row)) (grid st))"

section \<open>Properties of \<open>createTerrain\<close>\<close>

declare createTerrain_loop.simps [simp del]
declare for_loop.simps [simp del]

lemma createTerrain_loop_attributes:
  "createTerrain_loop i gridsize terrain g = Inr (t, g') \<Longrightarrow> attributes t = attributes terrain"
proof (induction i gridsize terrain g rule: createTerrain_loop.induct)
  case (1 i gridsize terrain g)
  show ?case
  proof (cases "i < (gridsize - 1) * (gridsize - 1) * 2")
    case False
    with "1.prems" show ?thesis by (simp add: createTerrain_loop.simps [of i])
  next
    case True
    from "1.prems" True obtain g0 g1 g2 where
      g: "g = Some g0"
      and p0: "push_attribute g0 0 [of_int i, of_int (i + 1), of_int (i + gridsize)] = Inr g1"
      and p1: "push_attribute g1 1 [0.8, 0.6, 0.4] = Inr g2"
      and rec: "createTerrain_loop (i + 1) gridsize
                  (terrain\<lparr>triangles := triangles terrain @
                     [of_int (i * 3), of_int (i * 3 + 1), of_int (i * 3 + 2)]\<rparr>) (Some g2) = Inr (t, g')"
      by (auto simp: createTerrain_loop.simps [of i] Let_def split: option.splits sum.splits)
    from "1.IH" [OF True refl g p0 p1 rec] show ?thesis by simp
  qed
qed

lemma createTerrain_loop_unbound:
  "i < (gridsize - 1) * (gridsize - 1) * 2 \<Longrightarrow> createTerrain_loop i gridsize terrain None = Inl ReferenceError"
  by (simp add: createTerrain_loop.simps [of i])

lemma createTerrain_loop_closed:
  "2 \<le> length (attributes g0) \<Longrightarrow>
   createTerrain_loop i gridsize terrain (Some g0) =
     Inr (terrain\<lparr>triangles := triangles terrain @
            concat (map (\<lambda>k. [of_int (k * 3), of_int (k * 3 + 1), of_int (k * 3 + 2)])
                        [i..(gridsize - 1) * (gridsize - 1) * 2 - 1])\<rparr>,
          Some (g0\<lparr>attributes := (attributes g0)
            [0 := attributes g0 ! 0 @
                    concat (map (\<lambda>k. [of_int k, of_int (k + 1), of_int (k + gridsize)])
                                [i..(gridsize - 1) * (gridsize - 1) * 2 - 1]),
             1 := attributes g0 ! 1 @
                    concat (map (\<lambda>k. [0.8, 0.6, 0.4])
                                [i..(gridsize - 1) * (gridsize - 1) * 2 - 1])]\<rparr>))"
proof (induction "nat ((gridsize - 1) * (gridsize - 1) * 2 - i)" arbitrary: i terrain g0)
  case 0
  then have "\<not> i < (gridsize - 1) * (gridsize - 1) * 2" by simp
  then show ?case
    by (simp add: createTerrain_loop.simps [of i] list_update_same_conv)
next
  case (Suc m)
  then have lt: "i < (gridsize - 1) * (gridsize - 1) * 2" by linarith
  have up: "[i..(gridsize - 1) * (gridsize - 1) * 2 - 1] = i # [i + 1..(gridsize - 1) * (gridsize - 1) * 2 - 1]"
    using lt by (simp add: upto_rec1)
  have m: "m = nat ((gridsize - 1) * (gridsize - 1) * 2 - (i + 1))" using Suc.hyps(2) by linarith
  obtain g2 where g2: "g2 = g0\<lparr>attributes := (attributes g0)
        [0 := attributes g0 ! 0 @ [of_int i, of_int (i + 1), of_int (i + gridsize)],
         1 := attributes g0 ! 1 @ [0.8, 0.6, 0.4]]\<rparr>" by simp
  have len2: "2 \<le> length (attributes g2)" using Suc.prems g2 by simp
  obtain a0 a1 as where A: "attributes g0 = a0 # a1 # as"
    using Suc.prems by (auto simp: numeral_2_eq_2 Suc_le_length_iff)
  have step: "createTerrain_loop i gridsize terrain (Some g0) =
      createTerrain_loop (i + 1) gridsize
        (terrain\<lparr>triangles := triangles terrain @
            [of_int (i * 3), of_int (i * 3 + 1), of_int (i * 3 + 2)]\<rparr>) (Some g2)"
    using lt A g2
    by (simp add: createTerrain_loop.simps [of i] push_attribute_def Let_def)
  show ?case
    unfolding step Suc.hyps(1) [OF m len2] up
    using A by (simp add: g2)
qed

text \<open>
  C4. The specification promises, for every \<open>gridsize \<ge> 2\<close>, a mesh with
  \<open>(gridsize - 1)\<^sup>2 \<times> 2\<close> triangles and \<open>gridsize\<^sup>2\<close> positions. The code pushes the
  positions and colors onto \<open>g.attributes\<close> instead of \<open>terrain.attributes\<close>: with \<open>g\<close>
  unbound the first iteration throws a \<open>ReferenceError\<close> and no mesh is returned, and
  whenever a mesh is returned its position list is empty, so it never has
  \<open>gridsize\<^sup>2\<close> positions.
\<close>

theorem createTerrain_returns_no_positions:
  "2 \<le> gridsize \<Longrightarrow>
     createTerrain gridsize faults st None = Inl ReferenceError \<and>
     (\<forall>g t g'. createTerrain gridsize faults st g = Inr (t, g') \<longrightarrow>
        attributes t ! 0 = [] \<and> length (attributes t ! 0) \<noteq> nat (gridsize * gridsize))"
proof (intro conjI allI impI)
  assume g2: "2 \<le> gridsize"
  then show "createTerrain gridsize faults st None = Inl ReferenceError"
    unfolding createTerrain_def by (intro createTerrain_loop_unbound) simp
  fix g t g'
  assume r: "createTerrain gridsize faults st g = Inr (t, g')"
  then have "attributes t = [[], []]"
    using createTerrain_loop_attributes [of 0 gridsize _ g t g'] by (simp add: createTerrain_def)
  then show "attributes t ! 0 = []" by simp
  moreover have "0 < gridsize * gridsize" using g2 by (intro mult_pos_pos) auto
  ultimately show "length (attributes t ! 0) \<noteq> nat (gridsize * gridsize)" by simp
qed

theorem createTerrain_returns_no_positions_witness:
  "(2::int) \<le> 2 \<and>
   createTerrain 2 (Num 0) \<lparr>arrays = empty_store, grid = [], grid_normals = []\<rparr> None
     = Inl ReferenceError \<and>
   createTerrain 2 (Num 0) \<lparr>arrays = empty_store, grid = [], grid_normals = []\<rparr>
       (Some \<lparr>triangles = [], attributes = [[], []]\<rparr>)
     = Inr (\<lparr>triangles = [0, 1, 2, 3, 4, 5], attributes = [[], []]\<rparr>,
            Some \<lparr>triangles = [], attributes = [[0, 1, 2, 1, 2, 3], [0.8, 0.6, 0.4, 0.8, 0.6, 0.4]]\<rparr>) \<and>
   attributes \<lparr>triangles = [0, 1, 2, 3, 4, 5], attributes = [[], []]\<rparr> ! 0 = [] \<and>
   length (attributes \<lparr>triangles = [0, 1, 2, 3, 4, 5::real], attributes = [[], []]\<rparr> ! 0) \<noteq> nat (2 * 2)"
proof -
  have e: "createTerrain 2 (Num 0) \<lparr>arrays = empty_store, grid = [], grid_normals = []\<rparr>
       (Some \<lparr>triangles = [], attributes = [[], []]\<rparr>)
     = Inr (\<lparr>triangles = [0, 1, 2, 3, 4, 5], attributes = [[], []]\<rparr>,
            Some \<lparr>triangles = [], attributes = [[0, 1, 2, 1, 2, 3], [0.8, 0.6, 0.4, 0.8, 0.6, 0.4]]\<rparr>)"
    by (simp add: createTerrain_def createTerrain_loop.simps push_attribute_def)
  from createTerrain_returns_no_positions [of 2 "Num 0" "\<lparr>arrays = empty_store, grid = [], grid_normals = []\<rparr>"] e
  show ?thesis by simp
qed

text \<open>
  With \<open>g\<close> unbound, as it is in the source, \<open>createTerrain\<close> returns a mesh only for
  \<open>gridsize = 1\<close>, and that mesh is empty: for every other grid size the loop runs at
  least once and its first iteration throws.
\<close>

lemma createTerrain_unbound_returns:
  assumes "createTerrain gridsize faults st None = Inr (t, g')"
  shows "gridsize = 1 \<and> t = \<lparr>triangles = [], attributes = [[], []]\<rparr> \<and> g' = None"
proof (cases "0 < (gridsize - 1) * (gridsize - 1) * 2")
  case True
  then have "createTerrain gridsize faults st None = Inl ReferenceError"
    unfolding createTerrain_def by (rule createTerrain_loop_unbound)
  with assms show ?thesis by simp
next
  case False
  then have "(gridsize - 1) * (gridsize - 1) = 0"
    using zero_le_square [of "gridsize - 1"] by linarith
  then have g: "gridsize = 1" by simp
  from assms show ?thesis
    by (simp add: g createTerrain_def createTerrain_loop.simps)
qed

text \<open>
  The specification promises an \<open>InvalidParameter\<close> error for every \<open>gridsize < 2\<close>
  (claim C7). The call \<open>createTerrain(1, 5)\<close> returns normally instead: the loop bound
  \<open>(1 - 1) * (1 - 1) * 2\<close> is \<open>0\<close>.
\<close>

theorem createTerrain_size_one_counterexample:
  "createTerrain 1 (Num 5) \<lparr>arrays = empty_store, grid = [], grid_normals = []\<rparr> None
     = Inr (\<lparr>triangles = [], attributes = [[], []]\<rparr>, None)"
  by (simp add: createTerrain_def createTerrain_loop.simps)

text \<open>
  C7, as the code has it. There is no \<open>InvalidParameter\<close> error and no check of
  \<open>gridsize < 2\<close>: for \<open>gridsize = 1\<close>, \<open>createTerrain\<close> returns an empty mesh without any
  error, whatever \<open>faults\<close>, the grids and \<open>g\<close> are, and the click handler accepts \<open>1\<close> and
  allocates the two \<open>1 \<times> 1\<close> grids.
\<close>

theorem createTerrain_size_one:
  "createTerrain 1 faults st g = Inr (\<lparr>triangles = [], attributes = [[], []]\<rparr>, g) \<and>
   gridsize_input (Num 1) = Num 1 \<and>
   new_grids (gridsize_input (Num 1)) =
     Inr \<lparr>arrays = empty_store(0 := [Num 0], 1 := [Num 0]), grid = [0], grid_normals = [1]\<rparr>"
  by (simp add: createTerrain_def createTerrain_loop.simps gridsize_input_def js_or_def
        new_grids_def new_Array_def bindE_def)

text \<open>
  C10. The result of \<open>createTerrain\<close> is the same for any two fault counts and any two
  states of the height and normal grids. When \<open>g\<close> is bound to an object with two
  attribute lists the result is: the indices \<open>3 i, 3 i + 1, 3 i + 2\<close> in the returned
  object, and \<open>i, i + 1, i + gridsize\<close> and \<open>0.8, 0.6, 0.4\<close> appended to the two attribute
  lists of \<open>g\<close>, for \<open>i\<close> from \<open>0\<close> to \<open>(gridsize - 1)\<^sup>2 \<times> 2 - 1\<close>.
\<close>

theorem createTerrain_gridsize_alone:
  "createTerrain gridsize faults1 st1 g = createTerrain gridsize faults2 st2 g \<and>
   (2 \<le> length (attributes g0) \<longrightarrow>
    createTerrain gridsize faults1 st1 (Some g0) =
      Inr (\<lparr>triangles =
             concat (map (\<lambda>i. [of_int (i * 3), of_int (i * 3 + 1), of_int (i * 3 + 2)])
                         [0..(gridsize - 1) * (gridsize - 1) * 2 - 1]),
           attributes = [[], []]\<rparr>,
           Some (g0\<lparr>attributes := (attributes g0)
             [0 := attributes g0 ! 0 @
                     concat (map (\<lambda>i. [of_int i, of_int (i + 1), of_int (i + gridsize)])
                                 [0..(gridsize - 1) * (gridsize - 1) * 2 - 1]),
              1 := attributes g0 ! 1 @
                     concat (map (\<lambda>i. [0.8, 0.6, 0.4])
                                 [0..(gridsize - 1) * (gridsize - 1) * 2 - 1])]\<rparr>)))"
  by (simp add: createTerrain_def createTerrain_loop_closed)

theorem createTerrain_gridsize_alone_witness:
  "createTerrain 2 (Num 0)
      \<lparr>arrays = empty_store(0 := [Num 0, Num 0], 1 := [Num 0, Num 0]),
         grid = [0, 0], grid_normals = [1, 1]\<rparr>
      (Some \<lparr>triangles = [], attributes = [[], []]\<rparr>)
   = createTerrain 2 (Num 5)
      \<lparr>arrays = empty_store(0 := [NaN, NInf], 1 := [Num 0, Num 0]),
         grid = [0, 0], grid_normals = [1, 1]\<rparr>
      (Some \<lparr>triangles = [], attributes = [[], []]\<rparr>) \<and>
   2 \<le> length (attributes \<lparr>triangles = [], attributes = [[], []]\<rparr>) \<and>
   createTerrain 2 (Num 0)
      \<lparr>arrays = empty_store(0 := [Num 0, Num 0], 1 := [Num 0, Num 0]),
         grid = [0, 0], grid_normals = [1, 1]\<rparr>
      (Some \<lparr>triangles = [], attributes = [[], []]\<rparr>)
   = Inr (\<lparr>triangles = [0, 1, 2, 3, 4, 5], attributes = [[], []]\<rparr>,
          Some \<lparr>triangles = [],
                 attributes = [[0, 1, 2, 1, 2, 3], [0.8, 0.6, 0.4, 0.8, 0.6, 0.4]]\<rparr>)"
proof -
  have u: "[0..(1::int)] = [0, 1]" by (simp add: upto_rec1)
  note T = createTerrain_gridsize_alone
            [of 2 "Num 0"
                "\<lparr>arrays = empty_store(0 := [Num 0, Num 0], 1 := [Num 0, Num 0]),
                   grid = [0, 0], grid_normals = [1, 1]\<rparr>"
                "Some \<lparr>triangles = [], attributes = [[], []]\<rparr>" "Num 5"
                "\<lparr>arrays = empty_store(0 := [NaN, NInf], 1 := [Num 0, Num 0]),
                   grid = [0, 0], grid_normals = [1, 1]\<rparr>"
                "\<lparr>triangles = [], attributes = [[], []]\<rparr>"]
  have c1: "createTerrain 2 (Num 0)
      \<lparr>arrays = empty_store(0 := [Num 0, Num 0], 1 := [Num 0, Num 0]),
         grid = [0, 0], grid_normals = [1, 1]\<rparr>
      (Some \<lparr>triangles = [], attributes = [[], []]\<rparr>)
   = createTerrain 2 (Num 5)
      \<lparr>arrays = empty_store(0 := [NaN, NInf], 1 := [Num 0, Num 0]),
         grid = [0, 0], grid_normals = [1, 1]\<rparr>
      (Some \<lparr>triangles = [], attributes = [[], []]\<rparr>)"
    using T by (rule conjunct1)
  have c3: "createTerrain 2 (Num 0)
      \<lparr>arrays = empty_store(0 := [Num 0, Num 0], 1 := [Num 0, Num 0]),
         grid = [0, 0], grid_normals = [1, 1]\<rparr>
      (Some \<lparr>triangles = [], attributes = [[], []]\<rparr>)
   = Inr (\<lparr>triangles = [0, 1, 2, 3, 4, 5], attributes = [[], []]\<rparr>,
          Some \<lparr>triangles = [],
                 attributes = [[0, 1, 2, 1, 2, 3], [0.8, 0.6, 0.4, 0.8, 0.6, 0.4]]\<rparr>)"
    using T [THEN conjunct2] by (simp add: u)
  show ?thesis
    by (intro conjI) (rule c1, simp, rule c3)
qed

section \<open>Input handling\<close>

text \<open>
  The specification promises that every invalid request, non-numeric or out of range,
  falls back to \<open>gridsize = 2\<close> and \<open>faultCount = 0\<close> and that the pipeline still runs
  (claim C8). The out-of-range numbers \<open>-3\<close>, \<open>-5\<close> and \<open>1\<close> are kept as they are, and
  allocating the grids for \<open>gridsize = -3\<close> throws a \<open>RangeError\<close>.
\<close>

theorem input_out_of_range_counterexample:
  "gridsize_input (Num (- 3)) = Num (- 3) \<and>
   faults_input (Num (- 5)) = Num (- 5) \<and>
   gridsize_input (Num 1) = Num 1 \<and>
   new_grids (gridsize_input (Num (- 3))) = Inl RangeError"
  by (simp add: gridsize_input_def faults_input_def js_or_def new_grids_def new_Array_def
        bindE_def)

text \<open>
  C8, as the code has it. The fallback is \<open>Number(value) || default\<close>: it replaces the
  falsy numbers, \<open>NaN\<close> (a text that is not a number) and \<open>0\<close>, by \<open>gridsize = 2\<close> and
  \<open>faultCount = 0\<close>. Every other number is used as it is, in range or not.
\<close>

theorem input_defaults:
  "gridsize_input NaN = Num 2 \<and> faults_input NaN = Num 0 \<and>
   gridsize_input (Num 0) = Num 2 \<and> faults_input (Num 0) = Num 0 \<and>
   (v \<noteq> NaN \<longrightarrow> v \<noteq> Num 0 \<longrightarrow> gridsize_input v = v \<and> faults_input v = v)"
  by (simp add: gridsize_input_def faults_input_def js_or_def)

theorem input_defaults_witness:
  "gridsize_input NaN = Num 2 \<and> faults_input NaN = Num 0 \<and>
   gridsize_input (Num 0) = Num 2 \<and> faults_input (Num 0) = Num 0 \<and>
   Num 7 \<noteq> NaN \<and> Num 7 \<noteq> Num 0 \<and>
   gridsize_input (Num 7) = Num 7 \<and> faults_input (Num 7) = Num 7"
  using input_defaults [of "Num 7"] by simp

section \<open>Loops over the shared rows\<close>

text \<open>Unfolding the counting loop, and two ways to reason about it.\<close>

lemma for_loop_done: "\<not> i < n \<Longrightarrow> for_loop i n body s = Inr s"
  by (simp add: for_loop.simps [of i])

lemma for_loop_step:
  "i < n \<Longrightarrow> for_loop i n body s =
     (case body i s of Inl e \<Rightarrow> Inl e | Inr s' \<Rightarrow> for_loop (Suc i) n body s')"
  by (simp add: for_loop.simps [of i] split: sum.splits)

lemma for_loop_invariant:
  assumes step: "\<And>i s s'. i < n \<Longrightarrow> P s \<Longrightarrow> body i s = Inr s' \<Longrightarrow> P s'"
  shows "P s \<Longrightarrow> for_loop k n body s = Inr s' \<Longrightarrow> P s'"
proof (induction "n - k" arbitrary: k s)
  case 0
  then show ?case by (simp add: for_loop_done)
next
  case (Suc m)
  then have lt: "k < n" by linarith
  from Suc.prems(2) lt obtain s1 where b: "body k s = Inr s1"
    and r: "for_loop (Suc k) n body s1 = Inr s'"
    by (auto simp: for_loop_step split: sum.splits)
  have "P s1" using step [OF lt Suc.prems(1) b] .
  moreover have "m = n - Suc k" using Suc.hyps(2) by linarith
  ultimately show ?case using Suc.hyps(1) r by blast
qed

lemma for_loop_fold:
  assumes step: "\<And>i x. i < n \<Longrightarrow> I x \<Longrightarrow> body i (S x) = Inr (S (h i x)) \<and> I (h i x)"
  shows "I x \<Longrightarrow> for_loop k n body (S x) = Inr (S (fold h [k..<n] x))"
proof (induction "n - k" arbitrary: k x)
  case 0
  then show ?case by (simp add: for_loop_done)
next
  case (Suc m)
  then have lt: "k < n" by linarith
  have m: "m = n - Suc k" using Suc.hyps(2) by linarith
  from step [OF lt Suc.prems] have b: "body k (S x) = Inr (S (h k x))" and i: "I (h k x)"
    by simp_all
  show ?case
    using Suc.hyps(1) [OF m i] lt b by (simp add: for_loop_step upt_conv_Cons)
qed

lemma fold_update_map:
  "length r = n \<Longrightarrow> k \<le> n \<Longrightarrow>
   fold (\<lambda>j r. r[j := F (r ! j)]) [k..<n] r = take k r @ map F (drop k r)"
proof (induction "n - k" arbitrary: k r)
  case 0
  then show ?case by simp
next
  case (Suc m)
  then have lt: "k < n" by linarith
  have m: "m = n - Suc k" using Suc.hyps(2) by linarith
  have l: "length (r[k := F (r ! k)]) = n" using Suc.prems by simp
  have "fold (\<lambda>j r. r[j := F (r ! j)]) [k..<n] r
      = fold (\<lambda>j r. r[j := F (r ! j)]) [Suc k..<n] (r[k := F (r ! k)])"
    using lt by (simp add: upt_conv_Cons)
  also have "\<dots> = take (Suc k) (r[k := F (r ! k)]) @ map F (drop (Suc k) (r[k := F (r ! k)]))"
    using Suc.hyps(1) [OF m l] lt by simp
  also have "\<dots> = take k r @ map F (drop k r)"
    using lt Suc.prems(1)
    by (simp add: take_Suc_conv_app_nth Cons_nth_drop_Suc [symmetric])
  finally show ?case .
qed

lemma fold_const: "fold (\<lambda>i. g) [k..<n] x = (g ^^ (n - k)) x"
proof (induction "n - k" arbitrary: k x)
  case 0
  then show ?case by simp
next
  case (Suc m)
  then have lt: "k < n" and m: "m = n - Suc k" by linarith+
  have "n - k = Suc (n - Suc k)" using lt by simp
  then show ?case using Suc.hyps(1) [OF m] lt
    by (simp add: upt_conv_Cons funpow_swap1)
qed

lemma map_funpow: "(map F ^^ k) r = map ((F :: 'a \<Rightarrow> 'a) ^^ k) r"
  by (induction k) simp_all

section \<open>The states of the pipeline share their rows\<close>

lemma new_grids_shape:
  "new_grids (Num (real n)) = Inr st \<Longrightarrow>
   grid st = replicate n 0 \<and> grid_normals st = replicate n 1 \<and>
   arrays st 0 = replicate n (Num 0) \<and> arrays st 1 = replicate n (Num 0)"
  by (auto simp: new_grids_def new_Array_def bindE_def split: if_splits)

lemma pipeline_state_shape:
  "pipeline_state n st \<Longrightarrow>
   grid st = replicate n 0 \<and> grid_normals st = replicate n 1 \<and>
   length (arrays st 0) = n \<and> length (arrays st 1) = n"
proof (induction rule: pipeline_state.induct)
  case (allocated st)
  then show ?case using new_grids_shape [of n st] by simp
next
  case (grid_write st i j v st')
  then show ?case by (auto simp: set_cell_def Let_def split: if_splits)
next
  case (normals_write st i j v st')
  then show ?case by (auto simp: set_cell_def Let_def split: if_splits)
qed

text \<open>
  C9. Each grid is allocated by filling the outer array with one row, so every slot of
  the outer array refers to the same row. In every state of the pipeline, for all rows
  \<open>i\<close> and \<open>i'\<close> below the grid size and every column \<open>j\<close>, \<open>grid[i][j]\<close> and \<open>grid[i'][j]\<close>
  read the same value, and so do \<open>grid_normals[i][j]\<close> and \<open>grid_normals[i'][j]\<close>; a value
  written to \<open>grid[i][j]\<close> (or \<open>grid_normals[i][j]\<close>) is read back from row \<open>i'\<close>. The lemmas
  after the theorem show that the states returned by the stages of the handler are states
  of the pipeline.
\<close>

theorem rows_share_storage:
  "pipeline_state n st \<Longrightarrow> i < n \<Longrightarrow> i' < n \<Longrightarrow>
     get_cell st (grid st) i j = get_cell st (grid st) i' j \<and>
     get_cell st (grid_normals st) i j = get_cell st (grid_normals st) i' j \<and>
     (\<exists>st'. set_cell st (grid st) i j v = Inr st' \<and>
            get_cell st' (grid st') i' j = Inr v) \<and>
     (\<exists>st'. set_cell st (grid_normals st) i j v = Inr st' \<and>
            get_cell st' (grid_normals st') i' j = Inr v)"
proof -
  assume p: "pipeline_state n st" and i: "i < n" and i': "i' < n"
  from pipeline_state_shape [OF p]
  have g: "grid st = replicate n 0" and gn: "grid_normals st = replicate n 1" by simp_all
  show ?thesis
    using i i' by (simp add: g gn get_cell_def set_cell_def Let_def nth_append)
qed

lemma fault_vertex_pipeline:
  "pipeline_state n st \<Longrightarrow> i < n \<Longrightarrow> j < n \<Longrightarrow> fault_vertex L x p normal i j st = Inr st'
     \<Longrightarrow> pipeline_state n st'"
  by (auto simp: fault_vertex_def bindE_def split: sum.splits if_splits
           intro: pipeline_state.grid_write)

lemma apply_fault_pipeline:
  assumes "pipeline_state n st" and "apply_fault L n r1 r2 r3 st = Inr st'"
  shows "pipeline_state n st'"
proof -
  from assms(2) obtain p normal where
    l: "for_loop 0 n (\<lambda>i. for_loop 0 n (\<lambda>j. fault_vertex L (r1 * real n) p normal i j)) st = Inr st'"
    by (auto simp: apply_fault_def bindE_def Let_def split: sum.splits)
  have inner: "\<And>i s s'. i < n \<Longrightarrow> pipeline_state n s \<Longrightarrow>
      for_loop 0 n (\<lambda>j. fault_vertex L (r1 * real n) p normal i j) s = Inr s' \<Longrightarrow> pipeline_state n s'"
    by (erule for_loop_invariant [rotated 1]) (auto intro: fault_vertex_pipeline)
  show ?thesis
    using assms(1) l by (rule for_loop_invariant [rotated 1]) (auto intro: inner)
qed

lemma fault_loop_pipeline:
  assumes run: "fault_loop L rnd n fault faults k st = Some (Inr st')"
    and p: "pipeline_state n st"
  shows "pipeline_state n st'"
proof -
  have "pipeline_state n st \<longrightarrow> (\<forall>s. (Inr st' :: error + heap_state) = Inr s \<longrightarrow> pipeline_state n s)"
  proof (rule fault_loop.raw_induct
      [where P = "\<lambda>L rnd n fault faults k st r.
                   pipeline_state n st \<longrightarrow> (\<forall>s. r = Inr s \<longrightarrow> pipeline_state n s)",
       OF _ run])
    fix fl :: "mathlib \<Rightarrow> (nat \<Rightarrow> real) \<Rightarrow> nat \<Rightarrow> jsnum \<Rightarrow> jsnum \<Rightarrow> nat \<Rightarrow> heap_state
                 \<Rightarrow> (error + heap_state) option"
      and L rnd gridsize fault faults k st r
    assume IH: "\<And>L rnd gridsize fault faults k st r.
        fl L rnd gridsize fault faults k st = Some r \<Longrightarrow>
        pipeline_state gridsize st \<longrightarrow> (\<forall>s. r = Inr s \<longrightarrow> pipeline_state gridsize s)"
    assume eq: "(if js_lt fault faults
          then case apply_fault L gridsize (rnd k) (rnd (k + 1)) (rnd (k + 2)) st of
                 Inl e \<Rightarrow> Some (Inl e)
               | Inr st' \<Rightarrow> fl L rnd gridsize (js_add fault (Num 1)) faults (k + 3) st'
          else Some (Inr st)) = Some r"
    show "pipeline_state gridsize st \<longrightarrow> (\<forall>s. r = Inr s \<longrightarrow> pipeline_state gridsize s)"
    proof (intro impI allI)
      fix s
      assume ps: "pipeline_state gridsize st" and r: "r = Inr s"
      show "pipeline_state gridsize s"
      proof (cases "js_lt fault faults")
        case False
        with eq r ps show ?thesis by simp
      next
        case True
        with eq r obtain st1 where
          a: "apply_fault L gridsize (rnd k) (rnd (k + 1)) (rnd (k + 2)) st = Inr st1"
          and f: "fl L rnd gridsize (js_add fault (Num 1)) faults (k + 3) st1 = Some r"
          by (auto split: sum.splits)
        from apply_fault_pipeline [OF ps a] have "pipeline_state gridsize st1" .
        with IH [OF f] r show ?thesis by simp
      qed
    qed
  qed
  with p show ?thesis by simp
qed

lemma normalize_heights_pipeline:
  assumes "pipeline_state n st" and "normalize_heights n st = Inr st'"
  shows "pipeline_state n st'"
proof -
  obtain c d where
    l: "for_loop 0 n (\<lambda>i. for_loop 0 n (\<lambda>j st'.
           bindE (get_cell st' (grid st') i j) (\<lambda>v.
             set_cell st' (grid st') i j (js_div (js_sub v c) d)))) st = Inr st'"
    using assms(2) by (auto simp: normalize_heights_def Let_def)
  have cell: "\<And>i j s s'. i < n \<Longrightarrow> j < n \<Longrightarrow> pipeline_state n s \<Longrightarrow>
      bindE (get_cell s (grid s) i j) (\<lambda>v. set_cell s (grid s) i j (js_div (js_sub v c) d)) = Inr s'
      \<Longrightarrow> pipeline_state n s'"
    by (auto simp: bindE_def split: sum.splits intro: pipeline_state.grid_write)
  have inner: "\<And>i s s'. i < n \<Longrightarrow> pipeline_state n s \<Longrightarrow>
      for_loop 0 n (\<lambda>j st'. bindE (get_cell st' (grid st') i j) (\<lambda>v.
             set_cell st' (grid st') i j (js_div (js_sub v c) d))) s = Inr s' \<Longrightarrow> pipeline_state n s'"
    by (erule for_loop_invariant [rotated 1]) (auto intro: cell)
  show ?thesis
    using assms(1) l by (rule for_loop_invariant [rotated 1]) (auto intro: inner)
qed

lemma new_grids_pipeline:
  assumes "new_grids gridsize = Inr st"
  shows "pipeline_state (length (grid st)) st"
proof -
  from assms obtain x where x: "gridsize = Num x" and i: "x = of_int \<lfloor>x\<rfloor>" and x0: "0 \<le> x"
    and l: "length (grid st) = nat \<lfloor>x\<rfloor>"
    by (auto simp: new_grids_def new_Array_def bindE_def split: jsnum.splits if_splits)
  have "real (nat \<lfloor>x\<rfloor>) = x" using i x0 by (metis of_nat_nat zero_le_floor)
  with assms x l have "new_grids (Num (real (length (grid st)))) = Inr st" by simp
  then show ?thesis by (rule pipeline_state.allocated)
qed

lemma handler_stages_pipeline:
  assumes a: "new_grids gridsize = Inr st0"
    and f: "fault_loop L rnd (length (grid st0)) (Num 0) faults 0 st0 = Some (Inr st1)"
    and n: "normalize_heights (length (grid st0)) st1 = Inr st2"
  shows "pipeline_state (length (grid st0)) st0"
    and "pipeline_state (length (grid st0)) st1"
    and "pipeline_state (length (grid st0)) st2"
proof -
  show 0: "pipeline_state (length (grid st0)) st0" using a by (rule new_grids_pipeline)
  show 1: "pipeline_state (length (grid st0)) st1" using f 0 by (rule fault_loop_pipeline)
  show "pipeline_state (length (grid st0)) st2" using 1 n by (rule normalize_heights_pipeline)
qed

lemma new_grids_2:
  "new_grids (Num 2) =
     Inr \<lparr>arrays = empty_store(0 := [Num 0, Num 0], 1 := [Num 0, Num 0]),
          grid = [0, 0], grid_normals = [1, 1]\<rparr>"
  by (simp add: new_grids_def new_Array_def bindE_def numeral_2_eq_2)

lemma pipeline_state_2:
  "pipeline_state 2 \<lparr>arrays = empty_store(0 := [Num 0, Num 0], 1 := [Num 0, Num 0]),
                      grid = [0, 0], grid_normals = [1, 1]\<rparr>"
  by (rule pipeline_state.allocated) (simp add: new_grids_2)

lemma all_less_2: "(\<forall>i<2::nat. P i) = (P 0 \<and> P 1)"
  by (auto simp: less_2_cases_iff)

lemma bindE_simps: "bindE (Inl e) f = Inl e" "bindE (Inr x) f = f x"
  by (simp_all add: bindE_def)

section \<open>Applying a fault\<close>

lemma cell_update_shared:
  "grid st = replicate n 0 \<Longrightarrow> i < n \<Longrightarrow> j < n \<Longrightarrow> length r = n \<Longrightarrow>
   bindE (get_cell (st\<lparr>arrays := (arrays st)(0 := r)\<rparr>) (grid st) i j)
     (\<lambda>v. set_cell (st\<lparr>arrays := (arrays st)(0 := r)\<rparr>) (grid st) i j (F v))
   = Inr (st\<lparr>arrays := (arrays st)(0 := r[j := F (r ! j)])\<rparr>)"
  by (simp add: get_cell_def set_cell_def bindE_def)

lemma inner_loop_shared:
  assumes g: "grid st = replicate n 0" and i: "i < n" and l: "length r = n"
  shows "for_loop 0 n (\<lambda>j s. bindE (get_cell s (grid s) i j) (\<lambda>v. set_cell s (grid s) i j (F v)))
           (st\<lparr>arrays := (arrays st)(0 := r)\<rparr>)
         = Inr (st\<lparr>arrays := (arrays st)(0 := map F r)\<rparr>)"
proof -
  have "for_loop 0 n (\<lambda>j s. bindE (get_cell s (grid s) i j) (\<lambda>v. set_cell s (grid s) i j (F v)))
           (st\<lparr>arrays := (arrays st)(0 := r)\<rparr>)
        = Inr (st\<lparr>arrays := (arrays st)(0 := fold (\<lambda>j r. r[j := F (r ! j)]) [0..<n] r)\<rparr>)"
    by (rule for_loop_fold [where S = "\<lambda>r. st\<lparr>arrays := (arrays st)(0 := r)\<rparr>"
          and I = "\<lambda>r. length r = n" and h = "\<lambda>j r. r[j := F (r ! j)]"])
       (simp_all add: cell_update_shared [OF g i] l)
  then show ?thesis using fold_update_map [OF l, of 0 F] by simp
qed

lemma grid_loops_shared:
  assumes g: "grid st = replicate n 0" and l: "length r = n"
  shows "for_loop 0 n (\<lambda>i. for_loop 0 n (\<lambda>j s.
             bindE (get_cell s (grid s) i j) (\<lambda>v. set_cell s (grid s) i j (F v))))
           (st\<lparr>arrays := (arrays st)(0 := r)\<rparr>)
         = Inr (st\<lparr>arrays := (arrays st)(0 := map (F ^^ n) r)\<rparr>)"
proof -
  have "for_loop 0 n (\<lambda>i. for_loop 0 n (\<lambda>j s.
             bindE (get_cell s (grid s) i j) (\<lambda>v. set_cell s (grid s) i j (F v))))
           (st\<lparr>arrays := (arrays st)(0 := r)\<rparr>)
        = Inr (st\<lparr>arrays := (arrays st)(0 := fold (\<lambda>i. map F) [0..<n] r)\<rparr>)"
    by (rule for_loop_fold [where S = "\<lambda>r. st\<lparr>arrays := (arrays st)(0 := r)\<rparr>"
          and I = "\<lambda>r. length r = n" and h = "\<lambda>i. map F"])
       (simp_all add: inner_loop_shared [OF g] l)
  then show ?thesis by (simp add: fold_const map_funpow)
qed

lemma fault_vertex_shared:
  assumes g: "grid st = replicate n 0" and i: "i < n" and j: "j < n" and l: "length r = n"
    and fv: "fault_val L x p normal = Inr val"
  shows "fault_vertex L x p normal i j (st\<lparr>arrays := (arrays st)(0 := r)\<rparr>)
         = Inr (st\<lparr>arrays := (arrays st)(0 := r[j :=
              (if js_lt val (Num 0) then js_sub (r ! j) (Num 0.01)
               else if js_lt (Num 0) val then js_add (r ! j) (Num 0.01)
               else r ! j)])\<rparr>)"
  using g i j l
  by (simp add: fault_vertex_def fv bindE_simps get_cell_def set_cell_def)

lemma fault_loops_shared:
  assumes g: "grid st = replicate n 0" and l: "length r = n"
    and fv: "fault_val L x p normal = Inr val"
  shows "for_loop 0 n (\<lambda>i. for_loop 0 n (\<lambda>j. fault_vertex L x p normal i j))
           (st\<lparr>arrays := (arrays st)(0 := r)\<rparr>)
         = Inr (st\<lparr>arrays := (arrays st)(0 :=
              map ((\<lambda>v. if js_lt val (Num 0) then js_sub v (Num 0.01)
                        else if js_lt (Num 0) val then js_add v (Num 0.01)
                        else v) ^^ n) r)\<rparr>)"
proof -
  let ?f = "\<lambda>v. if js_lt val (Num 0) then js_sub v (Num 0.01)
                 else if js_lt (Num 0) val then js_add v (Num 0.01) else v"
  let ?S = "\<lambda>r. st\<lparr>arrays := (arrays st)(0 := r)\<rparr>"
  have inner: "for_loop 0 n (\<lambda>j. fault_vertex L x p normal i j) (?S r) = Inr (?S (map ?f r))"
    if i: "i < n" and l: "length r = n" for i r
  proof -
    have "for_loop 0 n (\<lambda>j. fault_vertex L x p normal i j) (?S r)
          = Inr (?S (fold (\<lambda>j r. r[j := ?f (r ! j)]) [0..<n] r))"
      by (rule for_loop_fold [where S = ?S and I = "\<lambda>r. length r = n"
            and h = "\<lambda>j r. r[j := ?f (r ! j)]"])
         (simp_all add: fault_vertex_shared [OF g i _ _ fv] l)
    then show ?thesis using fold_update_map [OF l, of 0 ?f] by simp
  qed
  have "for_loop 0 n (\<lambda>i. for_loop 0 n (\<lambda>j. fault_vertex L x p normal i j)) (?S r)
        = Inr (?S (fold (\<lambda>i. map ?f) [0..<n] r))"
    by (rule for_loop_fold [where S = ?S and I = "\<lambda>r. length r = n" and h = "\<lambda>i. map ?f"])
       (simp_all add: inner l)
  then show ?thesis by (simp add: fold_const map_funpow)
qed

lemma fault_step_iterate:
  "((\<lambda>v. if js_lt val (Num 0) then js_sub v (Num 0.01)
         else if js_lt (Num 0) val then js_add v (Num 0.01) else v) ^^ k) (Num e)
   = Num (e + real k * (if js_lt val (Num 0) then - 0.01 else if js_lt (Num 0) val then 0.01 else 0))"
proof -
  have add: "((\<lambda>v. js_add v (Num d)) ^^ k) (Num e) = Num (e + real k * d)" for d
    by (induction k) (simp_all add: algebra_simps)
  have same: "((\<lambda>v. v) ^^ k) (Num e) = Num e"
    by (induction k) simp_all
  show ?thesis
  proof (cases "js_lt val (Num 0)")
    case True
    then show ?thesis using add [of "- 0.01"] by (simp add: js_sub_def)
  next
    case False
    then show ?thesis using add [of "0.01"] same by (cases "js_lt (Num 0) val") simp_all
  qed
qed

lemma for_loop_first:
  "0 < n \<Longrightarrow> for_loop 0 n body s = Inr s' \<Longrightarrow> \<exists>s1. body 0 s = Inr s1"
  by (auto simp: for_loop_step split: sum.splits)
text \<open>
  C2. The specification has every fault move each vertex by the sign of its own signed
  distance \<open>val = dot((i, j) - p, nv)\<close>: down by \<open>0.01\<close> for \<open>val < 0\<close>, up by \<open>0.01\<close> for
  \<open>val > 0\<close>. The code computes \<open>val\<close> from \<open>new Int32Array(x, y)\<close>, which does not
  mention \<open>i\<close> and \<open>j\<close>, and every row of the grid is the same array. So a fault that
  returns moves all the elevations by one and the same amount \<open>gridsize * d\<close>, where \<open>d\<close>
  is \<open>-0.01\<close>, \<open>0\<close> or \<open>0.01\<close>, for any \<open>sub\<close> and \<open>dot\<close>.
\<close>

theorem apply_fault_same_step_everywhere:
  assumes p: "pipeline_state n st" and a: "apply_fault L n r1 r2 r3 st = Inr st'"
  shows "\<exists>d\<in>{- 0.01, 0, 0.01}. \<forall>i<n. \<forall>j<n. \<forall>e.
           get_cell st (grid st) i j = Inr (Num e) \<longrightarrow>
           get_cell st' (grid st') i j = Inr (Num (e + real n * d))"
proof (cases "n = 0")
  case True
  then show ?thesis by (intro bexI [of _ 0]) simp_all
next
  case False
  then have n: "0 < n" by simp
  from pipeline_state_shape [OF p]
  have g: "grid st = replicate n 0" and l: "length (arrays st 0) = n" by simp_all
  from a obtain pt normal where
    lp: "for_loop 0 n (\<lambda>i. for_loop 0 n (\<lambda>j. fault_vertex L (r1 * real n) pt normal i j)) st = Inr st'"
    by (auto simp: apply_fault_def bindE_def Let_def split: sum.splits)
  from for_loop_first [OF n lp] obtain s1 where
    "for_loop 0 n (\<lambda>j. fault_vertex L (r1 * real n) pt normal 0 j) st = Inr s1" by blast
  from for_loop_first [OF n this] obtain s2 where
    "fault_vertex L (r1 * real n) pt normal 0 0 st = Inr s2" by blast
  then obtain val where fv: "fault_val L (r1 * real n) pt normal = Inr val"
    by (auto simp: fault_vertex_def bindE_def split: sum.splits)
  let ?d = "if js_lt val (Num 0) then - 0.01 else if js_lt (Num 0) val then 0.01 else (0::real)"
  from fault_loops_shared [OF g l fv] lp
  have st': "st' = st\<lparr>arrays := (arrays st)(0 :=
              map ((\<lambda>v. if js_lt val (Num 0) then js_sub v (Num 0.01)
                        else if js_lt (Num 0) val then js_add v (Num 0.01)
                        else v) ^^ n) (arrays st 0))\<rparr>"
    by simp
  have "\<forall>i<n. \<forall>j<n. \<forall>e.
           get_cell st (grid st) i j = Inr (Num e) \<longrightarrow>
           get_cell st' (grid st') i j = Inr (Num (e + real n * ?d))"
    using l by (simp add: st' g get_cell_def fault_step_iterate)
  moreover have "?d \<in> {- 0.01, 0, 0.01}" by simp
  ultimately show ?thesis by blast
qed

lemma apply_fault_spec_lib_2:
  "apply_fault spec_lib 2 (1 / 2) (1 / 2) 0
     \<lparr>arrays = empty_store(0 := [Num 0, Num 0], 1 := [Num 0, Num 0]),
        grid = [0, 0], grid_normals = [1, 1]\<rparr>
   = Inr \<lparr>arrays = empty_store(0 := [Num 0, Num 0], 1 := [Num 0, Num 0]),
          grid = [0, 0], grid_normals = [1, 1]\<rparr>"
  by (simp add: apply_fault_def Let_def new_TypedArray_def ToIndex_def bindE_def
        for_loop.simps fault_vertex_def fault_val_def spec_lib_def spec_sub_def spec_dot_def
        js_sub_def)

theorem apply_fault_same_step_everywhere_witness:
  "pipeline_state 2 \<lparr>arrays = empty_store(0 := [Num 0, Num 0], 1 := [Num 0, Num 0]),
                      grid = [0, 0], grid_normals = [1, 1]\<rparr> \<and>
   apply_fault spec_lib 2 (1 / 2) (1 / 2) 0
     \<lparr>arrays = empty_store(0 := [Num 0, Num 0], 1 := [Num 0, Num 0]),
        grid = [0, 0], grid_normals = [1, 1]\<rparr>
   = Inr \<lparr>arrays = empty_store(0 := [Num 0, Num 0], 1 := [Num 0, Num 0]),
          grid = [0, 0], grid_normals = [1, 1]\<rparr> \<and>
   get_cell \<lparr>arrays = empty_store(0 := [Num 0, Num 0], 1 := [Num 0, Num 0]),
              grid = [0, 0], grid_normals = [1, 1]\<rparr> [0, 0] 0 0 = Inr (Num 0) \<and>
   get_cell \<lparr>arrays = empty_store(0 := [Num 0, Num 0], 1 := [Num 0, Num 0]),
              grid = [0, 0], grid_normals = [1, 1]\<rparr> [0, 0] 1 1 = Inr (Num 0) \<and>
   (\<exists>d\<in>{- 0.01, 0, 0.01}.
      get_cell \<lparr>arrays = empty_store(0 := [Num 0, Num 0], 1 := [Num 0, Num 0]),
                 grid = [0, 0], grid_normals = [1, 1]\<rparr> [0, 0] 0 0 = Inr (Num (0 + real 2 * d)) \<and>
      get_cell \<lparr>arrays = empty_store(0 := [Num 0, Num 0], 1 := [Num 0, Num 0]),
                 grid = [0, 0], grid_normals = [1, 1]\<rparr> [0, 0] 1 1 = Inr (Num (0 + real 2 * d))) \<and>
   spec_val 0 0 1 1 0 = - 1 \<and> spec_val 1 1 1 1 0 = 0"
proof -
  let ?S = "\<lparr>arrays = empty_store(0 := [Num 0, Num 0], 1 := [Num 0, Num 0]),
             grid = [0, 0], grid_normals = [1, 1]\<rparr>"
  have cells: "get_cell ?S [0, 0] 0 0 = Inr (Num 0)" "get_cell ?S [0, 0] 1 1 = Inr (Num 0)"
    by (simp_all add: get_cell_def)
  from apply_fault_same_step_everywhere [OF pipeline_state_2 apply_fault_spec_lib_2]
  obtain d where d: "d \<in> {- 0.01, 0, 0.01}"
    and a: "\<forall>i<2. \<forall>j<2. \<forall>e. get_cell ?S (grid ?S) i j = Inr (Num e) \<longrightarrow>
              get_cell ?S (grid ?S) i j = Inr (Num (e + real 2 * d))" by blast
  from a cells have "get_cell ?S [0, 0] 0 0 = Inr (Num (0 + real 2 * d)) \<and>
      get_cell ?S [0, 0] 1 1 = Inr (Num (0 + real 2 * d))"
    by (simp add: all_less_2)
  with d have "\<exists>d\<in>{- 0.01, 0, 0.01}.
      get_cell ?S [0, 0] 0 0 = Inr (Num (0 + real 2 * d)) \<and>
      get_cell ?S [0, 0] 1 1 = Inr (Num (0 + real 2 * d))" by blast
  moreover have "spec_val 0 0 1 1 0 = - 1 \<and> spec_val 1 1 1 1 0 = 0"
    by (simp add: spec_val_def)
  ultimately show ?thesis
    using pipeline_state_2 apply_fault_spec_lib_2 cells by blast
qed

lemma apply_fault_negative_2:
  "apply_fault \<lparr>lib_sub = spec_sub, lib_dot = \<lambda>xs ys. Inr (Num (- 1))\<rparr> 2 (1 / 2) (1 / 2) 0
     \<lparr>arrays = empty_store(0 := [Num 0, Num 0], 1 := [Num 0, Num 0]),
        grid = [0, 0], grid_normals = [1, 1]\<rparr>
   = Inr \<lparr>arrays = empty_store(0 := [Num (- 0.02), Num (- 0.02)], 1 := [Num 0, Num 0]),
          grid = [0, 0], grid_normals = [1, 1]\<rparr>"
  by (simp add: apply_fault_def Let_def new_TypedArray_def ToIndex_def bindE_def
        for_loop.simps fault_vertex_def fault_val_def spec_sub_def get_cell_def set_cell_def
        js_sub_def fun_eq_iff)

theorem rows_share_storage_witness:
  "pipeline_state 2 \<lparr>arrays = empty_store(0 := [Num (- 0.02), Num (- 0.02)], 1 := [Num 0, Num 0]),
                      grid = [0, 0], grid_normals = [1, 1]\<rparr> \<and>
   (0::nat) < 2 \<and> (1::nat) < 2 \<and>
   get_cell \<lparr>arrays = empty_store(0 := [Num (- 0.02), Num (- 0.02)], 1 := [Num 0, Num 0]),
              grid = [0, 0], grid_normals = [1, 1]\<rparr> [0, 0] 0 1
   = get_cell \<lparr>arrays = empty_store(0 := [Num (- 0.02), Num (- 0.02)], 1 := [Num 0, Num 0]),
              grid = [0, 0], grid_normals = [1, 1]\<rparr> [0, 0] 1 1 \<and>
   get_cell \<lparr>arrays = empty_store(0 := [Num (- 0.02), Num (- 0.02)], 1 := [Num 0, Num 0]),
              grid = [0, 0], grid_normals = [1, 1]\<rparr> [1, 1] 0 1
   = get_cell \<lparr>arrays = empty_store(0 := [Num (- 0.02), Num (- 0.02)], 1 := [Num 0, Num 0]),
              grid = [0, 0], grid_normals = [1, 1]\<rparr> [1, 1] 1 1 \<and>
   (\<exists>st'. set_cell \<lparr>arrays = empty_store(0 := [Num (- 0.02), Num (- 0.02)], 1 := [Num 0, Num 0]),
                     grid = [0, 0], grid_normals = [1, 1]\<rparr> [0, 0] 0 1 (Num 5) = Inr st' \<and>
          get_cell st' (grid st') 1 1 = Inr (Num 5)) \<and>
   (\<exists>st'. set_cell \<lparr>arrays = empty_store(0 := [Num (- 0.02), Num (- 0.02)], 1 := [Num 0, Num 0]),
                     grid = [0, 0], grid_normals = [1, 1]\<rparr> [1, 1] 0 1 (Num 5) = Inr st' \<and>
          get_cell st' (grid_normals st') 1 1 = Inr (Num 5))"
proof -
  let ?S = "\<lparr>arrays = empty_store(0 := [Num (- 0.02), Num (- 0.02)], 1 := [Num 0, Num 0]),
             grid = [0, 0], grid_normals = [1, 1]\<rparr>"
  have ps: "pipeline_state 2 ?S"
    using apply_fault_pipeline [OF pipeline_state_2 apply_fault_negative_2] .
  from rows_share_storage [OF ps, of 0 1 1 "Num 5"] ps show ?thesis by simp
qed

section \<open>Normalizing the heights\<close>

lemma foldl_js_max_Num:
  "\<forall>x\<in>set r. \<exists>v. x = Num v \<Longrightarrow>
   \<exists>m. foldl js_max (Num a) r = Num m \<and> (m = a \<or> Num m \<in> set r) \<and> a \<le> m \<and>
       (\<forall>v. Num v \<in> set r \<longrightarrow> v \<le> m)"
proof (induction r arbitrary: a)
  case Nil
  then show ?case by simp
next
  case (Cons x r)
  then obtain v where x: "x = Num v" by auto
  have r: "\<forall>x\<in>set r. \<exists>v. x = Num v" using Cons.prems by simp
  show ?case
  proof (cases "a < v")
    case True
    from Cons.IH [OF r, of v] True show ?thesis
      by (auto simp: x js_max_def)
  next
    case False
    from Cons.IH [OF r, of a] False show ?thesis
      by (auto simp: x js_max_def)
  qed
qed

lemma Math_max_Num:
  assumes "\<forall>x\<in>set r. \<exists>v. x = Num v" and "r \<noteq> []"
  shows "\<exists>m. Math_max r = Num m \<and> Num m \<in> set r \<and> (\<forall>v. Num v \<in> set r \<longrightarrow> v \<le> m)"
proof -
  from assms obtain v r' where r: "r = Num v # r'" by (cases r) auto
  have r': "\<forall>x\<in>set r'. \<exists>v. x = Num v" using assms(1) r by simp
  from foldl_js_max_Num [OF r', of v] show ?thesis
    by (auto simp: Math_max_def r js_max_def)
qed

lemma foldl_js_max_replicate: "foldl js_max (Num m) (replicate k (Num m)) = Num m"
  by (induction k) (simp_all add: js_max_def)

lemma foldl_js_min_replicate: "foldl js_min (Num m) (replicate k (Num m)) = Num m"
  by (induction k) (simp_all add: js_min_def)

lemma Math_max_replicate: "0 < n \<Longrightarrow> Math_max (replicate n (Num m)) = Num m"
  by (cases n) (simp_all add: Math_max_def js_max_def foldl_js_max_replicate)

lemma Math_min_replicate: "0 < n \<Longrightarrow> Math_min (replicate n (Num m)) = Num m"
  by (cases n) (simp_all add: Math_min_def js_min_def foldl_js_min_replicate)

lemma normalize_heights_shared:
  assumes p: "pipeline_state n st"
  shows "normalize_heights n st =
     Inr (st\<lparr>arrays := (arrays st)(0 :=
        map ((\<lambda>v. js_div
                 (js_sub v (js_div (js_add (Math_max (replicate n (Math_max (arrays st 0))))
                                           (Math_min (replicate n (Math_max (arrays st 0)))))
                                   (Num 2)))
                 (js_sub (Math_max (replicate n (Math_max (arrays st 0))))
                         (Math_min (replicate n (Math_max (arrays st 0)))))) ^^ n)
            (arrays st 0))\<rparr>)"
proof -
  from pipeline_state_shape [OF p]
  have g: "grid st = replicate n 0" and l: "length (arrays st 0) = n" by simp_all
  show ?thesis
    unfolding normalize_heights_def Let_def g map_replicate
    using grid_loops_shared [OF g l] by (simp add: g)
qed

lemma funpow_fixed: "F x = x \<Longrightarrow> (F ^^ k) x = x"
  by (induction k) simp_all

lemma zero_range_step:
  "v \<le> m \<Longrightarrow> js_div (js_sub (Num v) (js_div (js_add (Num m) (Num m)) (Num 2)))
              (js_sub (Num m) (Num m)) = (if v = m then NaN else NInf)"
  by (simp add: js_sub_def)

lemma zero_range_iterate:
  assumes "v \<le> m" and "0 < n"
  shows "((\<lambda>x. js_div (js_sub x (js_div (js_add (Num m) (Num m)) (Num 2)))
                (js_sub (Num m) (Num m))) ^^ n) (Num v) = (if v = m then NaN else NInf)"
proof -
  obtain k where n: "n = Suc k" using assms(2) by (cases n) auto
  let ?F = "\<lambda>x. js_div (js_sub x (js_div (js_add (Num m) (Num m)) (Num 2)))
                (js_sub (Num m) (Num m))"
  have a: "?F NaN = NaN" by (simp add: js_sub_def)
  have b: "?F NInf = NInf" by (simp add: js_sub_def)
  have "(?F ^^ n) (Num v) = (?F ^^ k) (?F (Num v))" by (simp only: n funpow_Suc_right o_apply)
  also have "\<dots> = (?F ^^ k) (if v = m then NaN else NInf)"
    by (simp only: zero_range_step [OF assms(1)])
  also have "\<dots> = (if v = m then NaN else NInf)"
    using funpow_fixed [of ?F, OF a] funpow_fixed [of ?F, OF b] by (cases "v = m") simp_all
  finally show ?thesis .
qed

lemma normalize_heights_finite:
  assumes p: "pipeline_state n st" and n: "0 < n"
    and f: "\<forall>x\<in>set (arrays st 0). \<exists>v. x = Num v"
  shows "\<exists>m. Num m \<in> set (arrays st 0) \<and> (\<forall>v. Num v \<in> set (arrays st 0) \<longrightarrow> v \<le> m) \<and>
     normalize_heights n st =
       Inr (st\<lparr>arrays := (arrays st)(0 :=
              map (\<lambda>x. case x of Num v \<Rightarrow> if v = m then NaN else NInf | _ \<Rightarrow> x)
                  (arrays st 0))\<rparr>)"
proof -
  from pipeline_state_shape [OF p] have l: "length (arrays st 0) = n" by simp
  with n have ne: "arrays st 0 \<noteq> []" by auto
  from Math_max_Num [OF f ne] obtain m where
    m: "Math_max (arrays st 0) = Num m" and mem: "Num m \<in> set (arrays st 0)"
    and ub: "\<forall>v. Num v \<in> set (arrays st 0) \<longrightarrow> v \<le> m" by blast
  have "map ((\<lambda>x. js_div (js_sub x (js_div (js_add (Num m) (Num m)) (Num 2)))
                (js_sub (Num m) (Num m))) ^^ n) (arrays st 0)
      = map (\<lambda>x. case x of Num v \<Rightarrow> if v = m then NaN else NInf | _ \<Rightarrow> x) (arrays st 0)"
  proof (rule map_cong [OF refl])
    fix x assume x: "x \<in> set (arrays st 0)"
    with f obtain v where v: "x = Num v" by auto
    with x ub have "v \<le> m" by simp
    from zero_range_iterate [OF this n] show
      "((\<lambda>x. js_div (js_sub x (js_div (js_add (Num m) (Num m)) (Num 2)))
                (js_sub (Num m) (Num m))) ^^ n) x
       = (case x of Num v \<Rightarrow> if v = m then NaN else NInf | _ \<Rightarrow> x)"
      by (simp add: v)
  qed
  then have "normalize_heights n st =
       Inr (st\<lparr>arrays := (arrays st)(0 :=
              map (\<lambda>x. case x of Num v \<Rightarrow> if v = m then NaN else NInf | _ \<Rightarrow> x)
                  (arrays st 0))\<rparr>)"
    by (simp only: normalize_heights_shared [OF p] m Math_max_replicate [OF n] Math_min_replicate [OF n])
  with mem ub show ?thesis by blast
qed

lemma elevations_row:
  assumes p: "pipeline_state n st" and j: "j < n" and i: "i < n"
  shows "get_cell st (grid st) i j = Inr (arrays st 0 ! j)"
  using pipeline_state_shape [OF p] i j by (simp add: get_cell_def)
lemma foldl_js_max_NaN: "foldl js_max NaN xs = NaN"
  by (induction xs) (simp_all add: js_max_def)

lemma foldl_js_min_NaN: "foldl js_min NaN xs = NaN"
  by (induction xs) (simp_all add: js_min_def)

lemma Math_max_NaN: "NaN \<in> set xs \<Longrightarrow> Math_max xs = NaN"
proof -
  have "NaN \<in> set xs \<Longrightarrow> foldl js_max a xs = NaN" for a
    by (induction xs arbitrary: a) (auto simp: js_max_def foldl_js_max_NaN)
  then show "NaN \<in> set xs \<Longrightarrow> Math_max xs = NaN" by (simp add: Math_max_def)
qed

lemma Math_min_NaN: "NaN \<in> set xs \<Longrightarrow> Math_min xs = NaN"
proof -
  have "NaN \<in> set xs \<Longrightarrow> foldl js_min a xs = NaN" for a
    by (induction xs arbitrary: a) (auto simp: js_min_def foldl_js_min_NaN)
  then show "NaN \<in> set xs \<Longrightarrow> Math_min xs = NaN" by (simp add: Math_min_def)
qed

lemma elevation_range_NaN:
  assumes g: "grid st = replicate n 0" and n: "0 < n" and x: "NaN \<in> set (arrays st 0)"
  shows "elevation_max st = NaN" and "elevation_min st = NaN"
proof -
  have "NaN \<in> set (replicate n NaN)" using n by simp
  then show "elevation_max st = NaN" "elevation_min st = NaN"
    by (simp_all add: elevation_max_def elevation_min_def g Math_max_NaN Math_min_NaN x
          del: set_replicate)
qed

text \<open>
  Every field the handler generates is flat. The allocation fills the grid with \<open>0\<close>,
  and a fault that returns moves all the elevations by the same amount, so the fault
  loop, whatever the number of faults, ends with all the elevations equal to one finite
  value.
\<close>

lemma apply_fault_keeps_flat:
  assumes p: "pipeline_state n st" and a: "apply_fault L n r1 r2 r3 st = Inr st'"
    and f: "arrays st 0 = replicate n (Num v)"
  shows "\<exists>v'. arrays st' 0 = replicate n (Num v')"
proof (cases "n = 0")
  case True
  from a have "pipeline_state n st'" using p by (rule apply_fault_pipeline [rotated])
  from pipeline_state_shape [OF this] True show ?thesis by simp
next
  case False
  then have n: "0 < n" by simp
  from pipeline_state_shape [OF p]
  have g: "grid st = replicate n 0" and l: "length (arrays st 0) = n" by simp_all
  from a obtain pt normal where
    lp: "for_loop 0 n (\<lambda>i. for_loop 0 n (\<lambda>j. fault_vertex L (r1 * real n) pt normal i j)) st = Inr st'"
    by (auto simp: apply_fault_def bindE_def Let_def split: sum.splits)
  from for_loop_first [OF n lp] obtain s1 where
    "for_loop 0 n (\<lambda>j. fault_vertex L (r1 * real n) pt normal 0 j) st = Inr s1" by blast
  from for_loop_first [OF n this] obtain s2 where
    "fault_vertex L (r1 * real n) pt normal 0 0 st = Inr s2" by blast
  then obtain val where fv: "fault_val L (r1 * real n) pt normal = Inr val"
    by (auto simp: fault_vertex_def bindE_def split: sum.splits)
  from fault_loops_shared [OF g l fv] lp
  have st': "st' = st\<lparr>arrays := (arrays st)(0 :=
              map ((\<lambda>v. if js_lt val (Num 0) then js_sub v (Num 0.01)
                        else if js_lt (Num 0) val then js_add v (Num 0.01)
                        else v) ^^ n) (arrays st 0))\<rparr>"
    by simp
  show ?thesis
    by (simp add: st' f fault_step_iterate)
qed

lemma fault_loop_keeps_flat:
  assumes run: "fault_loop L rnd n fault faults k st = Some (Inr st')"
    and p: "pipeline_state n st" and f: "arrays st 0 = replicate n (Num v)"
  shows "\<exists>v'. arrays st' 0 = replicate n (Num v')"
proof -
  have "pipeline_state n st \<and> (\<exists>v. arrays st 0 = replicate n (Num v)) \<longrightarrow>
        (\<forall>s. (Inr st' :: error + heap_state) = Inr s \<longrightarrow> (\<exists>v'. arrays s 0 = replicate n (Num v')))"
  proof (rule fault_loop.raw_induct
      [where P = "\<lambda>L rnd n fault faults k st r.
                   pipeline_state n st \<and> (\<exists>v. arrays st 0 = replicate n (Num v)) \<longrightarrow>
                   (\<forall>s. r = Inr s \<longrightarrow> (\<exists>v'. arrays s 0 = replicate n (Num v')))",
       OF _ run])
    fix fl :: "mathlib \<Rightarrow> (nat \<Rightarrow> real) \<Rightarrow> nat \<Rightarrow> jsnum \<Rightarrow> jsnum \<Rightarrow> nat \<Rightarrow> heap_state
                 \<Rightarrow> (error + heap_state) option"
      and L rnd gridsize fault faults k st r
    assume IH: "\<And>L rnd gridsize fault faults k st r.
        fl L rnd gridsize fault faults k st = Some r \<Longrightarrow>
        pipeline_state gridsize st \<and> (\<exists>v. arrays st 0 = replicate gridsize (Num v)) \<longrightarrow>
        (\<forall>s. r = Inr s \<longrightarrow> (\<exists>v'. arrays s 0 = replicate gridsize (Num v')))"
    assume eq: "(if js_lt fault faults
          then case apply_fault L gridsize (rnd k) (rnd (k + 1)) (rnd (k + 2)) st of
                 Inl e \<Rightarrow> Some (Inl e)
               | Inr st' \<Rightarrow> fl L rnd gridsize (js_add fault (Num 1)) faults (k + 3) st'
          else Some (Inr st)) = Some r"
    show "pipeline_state gridsize st \<and> (\<exists>v. arrays st 0 = replicate gridsize (Num v)) \<longrightarrow>
        (\<forall>s. r = Inr s \<longrightarrow> (\<exists>v'. arrays s 0 = replicate gridsize (Num v')))"
    proof (intro impI allI)
      fix s
      assume h: "pipeline_state gridsize st \<and> (\<exists>v. arrays st 0 = replicate gridsize (Num v))"
        and r: "r = Inr s"
      then obtain v where ps: "pipeline_state gridsize st"
        and fl: "arrays st 0 = replicate gridsize (Num v)" by blast
      show "\<exists>v'. arrays s 0 = replicate gridsize (Num v')"
      proof (cases "js_lt fault faults")
        case False
        with eq r fl show ?thesis by auto
      next
        case True
        with eq r obtain st1 where
          a: "apply_fault L gridsize (rnd k) (rnd (k + 1)) (rnd (k + 2)) st = Inr st1"
          and f: "fl L rnd gridsize (js_add fault (Num 1)) faults (k + 3) st1 = Some r"
          by (auto split: sum.splits)
        from apply_fault_pipeline [OF ps a] have p1: "pipeline_state gridsize st1" .
        from apply_fault_keeps_flat [OF ps a fl] have "\<exists>v. arrays st1 0 = replicate gridsize (Num v)" .
        with IH [OF f] p1 r show ?thesis by simp
      qed
    qed
  qed
  with p f show ?thesis by blast
qed

lemma generated_field_flat:
  assumes a: "new_grids gridsize = Inr st0"
    and f: "fault_loop L rnd (length (grid st0)) (Num 0) faults 0 st0 = Some (Inr st1)"
  shows "\<exists>v. \<forall>i<length (grid st0). \<forall>j<length (grid st0).
           get_cell st1 (grid st1) i j = Inr (Num v)"
proof -
  let ?n = "length (grid st0)"
  have p0: "pipeline_state ?n st0" using a by (rule new_grids_pipeline)
  have z: "arrays st0 0 = replicate ?n (Num 0)"
    using a by (auto simp: new_grids_def new_Array_def bindE_def split: jsnum.splits if_splits)
  from fault_loop_keeps_flat [OF f p0 z] obtain v where v: "arrays st1 0 = replicate ?n (Num v)"
    by blast
  have p1: "pipeline_state ?n st1" using f p0 by (rule fault_loop_pipeline)
  have "\<forall>i<?n. \<forall>j<?n. get_cell st1 (grid st1) i j = Inr (Num v)"
    using elevations_row [OF p1] v by simp
  then show ?thesis ..
qed

text \<open>
  On a pipeline state of finite elevations, flat or not, \<open>min\<close> is taken from \<open>maxRow\<close>
  and all rows are one array, so \<open>max - min\<close> is \<open>0\<close>: the normalization leaves every
  elevation \<open>NaN\<close> or \<open>-Infinity\<close>, and the range and the midpoint of the normalized
  elevations are \<open>NaN\<close>.
\<close>

lemma normalize_heights_never_finite:
  assumes p: "pipeline_state n st" and n: "0 < n"
    and f: "\<forall>i<n. \<forall>j<n. \<exists>v. get_cell st (grid st) i j = Inr (Num v)"
  shows "\<exists>st'. normalize_heights n st = Inr st' \<and>
           (\<forall>i<n. \<forall>j<n. get_cell st' (grid st') i j = Inr NaN \<or>
                          get_cell st' (grid st') i j = Inr NInf) \<and>
           js_sub (elevation_max st') (elevation_min st') = NaN \<and>
           js_div (js_add (elevation_max st') (elevation_min st')) (Num 2) = NaN"
proof -
  from pipeline_state_shape [OF p]
  have g: "grid st = replicate n 0" and l: "length (arrays st 0) = n" by simp_all
  have fin: "\<forall>x\<in>set (arrays st 0). \<exists>v. x = Num v"
  proof
    fix x assume "x \<in> set (arrays st 0)"
    then obtain j where j: "j < n" and x: "x = arrays st 0 ! j"
      using l by (auto simp: in_set_conv_nth)
    from f n j obtain v where "get_cell st (grid st) 0 j = Inr (Num v)" by blast
    with elevations_row [OF p j n] x show "\<exists>v. x = Num v" by (metis sum.inject(2))
  qed
  from normalize_heights_finite [OF p n fin] obtain m where
    mem: "Num m \<in> set (arrays st 0)" and
    nh: "normalize_heights n st =
       Inr (st\<lparr>arrays := (arrays st)(0 :=
              map (\<lambda>x. case x of Num v \<Rightarrow> if v = m then NaN else NInf | _ \<Rightarrow> x)
                  (arrays st 0))\<rparr>)" by blast
  let ?st' = "st\<lparr>arrays := (arrays st)(0 :=
              map (\<lambda>x. case x of Num v \<Rightarrow> if v = m then NaN else NInf | _ \<Rightarrow> x)
                  (arrays st 0))\<rparr>"
  have cells: "\<forall>i<n. \<forall>j<n. get_cell ?st' (grid ?st') i j = Inr NaN \<or>
                          get_cell ?st' (grid ?st') i j = Inr NInf"
  proof (intro allI impI)
    fix i j assume i: "i < n" and j: "j < n"
    from fin l j obtain v where "arrays st 0 ! j = Num v" by (metis nth_mem)
    then show "get_cell ?st' (grid ?st') i j = Inr NaN \<or> get_cell ?st' (grid ?st') i j = Inr NInf"
      using i j l by (simp add: get_cell_def g)
  qed
  have "(case Num m of Num v \<Rightarrow> if v = m then NaN else NInf | _ \<Rightarrow> Num m) \<in> set (arrays ?st' 0)"
    using mem by (simp del: jsnum.case)
  then have nan: "NaN \<in> set (arrays ?st' 0)" by simp
  have g': "grid ?st' = replicate n 0" using g by simp
  from elevation_range_NaN [OF g' n nan]
  have "js_sub (elevation_max ?st') (elevation_min ?st') = NaN"
    and "js_div (js_add (elevation_max ?st') (elevation_min ?st')) (Num 2) = NaN"
    by (simp_all add: js_sub_def)
  with nh cells show ?thesis by blast
qed

lemma normalize_heights_2:
  "normalize_heights 2 \<lparr>arrays = empty_store(0 := [Num 0, Num 0], 1 := [Num 0, Num 0]),
                         grid = [0, 0], grid_normals = [1, 1]\<rparr>
   = Inr \<lparr>arrays = empty_store(0 := [NaN, NaN], 1 := [Num 0, Num 0]),
          grid = [0, 0], grid_normals = [1, 1]\<rparr>"
  by (simp add: normalize_heights_def Let_def Math_max_def Math_min_def js_max_def js_min_def
        for_loop.simps get_cell_def set_cell_def bindE_def js_sub_def fun_eq_iff)
text \<open>
  The specification promises a guard for the flat field: with \<open>max = min\<close> the
  normalization leaves every elevation at zero (claim C1). For the default request
  (\<open>gridsize = 2\<close>, no fault) the elevations are all \<open>0\<close> and the normalization turns
  them into \<open>NaN\<close>.
\<close>

theorem normalize_heights_flat_counterexample:
  "new_grids (gridsize_input NaN) =
     Inr \<lparr>arrays = empty_store(0 := [Num 0, Num 0], 1 := [Num 0, Num 0]),
          grid = [0, 0], grid_normals = [1, 1]\<rparr> \<and>
   fault_loop spec_lib (\<lambda>k. 0) 2 (Num 0) (faults_input NaN) 0
       \<lparr>arrays = empty_store(0 := [Num 0, Num 0], 1 := [Num 0, Num 0]),
          grid = [0, 0], grid_normals = [1, 1]\<rparr>
     = Some (Inr \<lparr>arrays = empty_store(0 := [Num 0, Num 0], 1 := [Num 0, Num 0]),
                  grid = [0, 0], grid_normals = [1, 1]\<rparr>) \<and>
   normalize_heights 2 \<lparr>arrays = empty_store(0 := [Num 0, Num 0], 1 := [Num 0, Num 0]),
                         grid = [0, 0], grid_normals = [1, 1]\<rparr>
     = Inr \<lparr>arrays = empty_store(0 := [NaN, NaN], 1 := [Num 0, Num 0]),
            grid = [0, 0], grid_normals = [1, 1]\<rparr> \<and>
   get_cell \<lparr>arrays = empty_store(0 := [NaN, NaN], 1 := [Num 0, Num 0]),
              grid = [0, 0], grid_normals = [1, 1]\<rparr> [0, 0] 0 0 = Inr NaN"
proof (intro conjI)
  show "new_grids (gridsize_input NaN) =
     Inr \<lparr>arrays = empty_store(0 := [Num 0, Num 0], 1 := [Num 0, Num 0]),
          grid = [0, 0], grid_normals = [1, 1]\<rparr>"
    by (simp only: gridsize_input_def js_or_def new_grids_2 simp_thms if_True)
  show "fault_loop spec_lib (\<lambda>k. 0) 2 (Num 0) (faults_input NaN) 0
       \<lparr>arrays = empty_store(0 := [Num 0, Num 0], 1 := [Num 0, Num 0]),
          grid = [0, 0], grid_normals = [1, 1]\<rparr>
     = Some (Inr \<lparr>arrays = empty_store(0 := [Num 0, Num 0], 1 := [Num 0, Num 0]),
                  grid = [0, 0], grid_normals = [1, 1]\<rparr>)"
    by (subst fault_loop.simps) (simp add: faults_input_def js_or_def)
  show "normalize_heights 2 \<lparr>arrays = empty_store(0 := [Num 0, Num 0], 1 := [Num 0, Num 0]),
                         grid = [0, 0], grid_normals = [1, 1]\<rparr>
     = Inr \<lparr>arrays = empty_store(0 := [NaN, NaN], 1 := [Num 0, Num 0]),
            grid = [0, 0], grid_normals = [1, 1]\<rparr>"
    by (rule normalize_heights_2)
  show "get_cell \<lparr>arrays = empty_store(0 := [NaN, NaN], 1 := [Num 0, Num 0]),
              grid = [0, 0], grid_normals = [1, 1]\<rparr> [0, 0] 0 0 = Inr NaN"
    by (simp add: get_cell_def)
qed

text \<open>
  C1, as the code has it. The normalization has no guard: for a field whose elevations
  are all equal to one finite value, it computes \<open>0 / 0\<close> and leaves every elevation
  \<open>NaN\<close>.
\<close>

theorem normalize_heights_flat:
  assumes p: "pipeline_state n st" and n: "0 < n"
    and f: "\<forall>i<n. \<forall>j<n. get_cell st (grid st) i j = Inr (Num v)"
  shows "\<exists>st'. normalize_heights n st = Inr st' \<and>
           (\<forall>i<n. \<forall>j<n. get_cell st' (grid st') i j = Inr NaN)"
proof -
  from pipeline_state_shape [OF p]
  have g: "grid st = replicate n 0" and l: "length (arrays st 0) = n" by simp_all
  have flat: "\<forall>j<n. arrays st 0 ! j = Num v"
  proof (intro allI impI)
    fix j assume j: "j < n"
    from f n j have "get_cell st (grid st) 0 j = Inr (Num v)" by blast
    with elevations_row [OF p j n] show "arrays st 0 ! j = Num v" by simp
  qed
  then have fin: "\<forall>x\<in>set (arrays st 0). \<exists>v. x = Num v"
    using l by (auto simp: in_set_conv_nth)
  from normalize_heights_finite [OF p n fin] obtain m where
    mem: "Num m \<in> set (arrays st 0)" and
    nh: "normalize_heights n st =
       Inr (st\<lparr>arrays := (arrays st)(0 :=
              map (\<lambda>x. case x of Num v \<Rightarrow> if v = m then NaN else NInf | _ \<Rightarrow> x)
                  (arrays st 0))\<rparr>)" by blast
  from mem flat l have m: "m = v" by (auto simp: in_set_conv_nth)
  show ?thesis
    unfolding nh using flat l by (simp add: get_cell_def g m)
qed

theorem normalize_heights_flat_witness:
  "pipeline_state 2 \<lparr>arrays = empty_store(0 := [Num 0, Num 0], 1 := [Num 0, Num 0]),
                      grid = [0, 0], grid_normals = [1, 1]\<rparr> \<and>
   (0::nat) < 2 \<and>
   get_cell \<lparr>arrays = empty_store(0 := [Num 0, Num 0], 1 := [Num 0, Num 0]),
              grid = [0, 0], grid_normals = [1, 1]\<rparr> [0, 0] 0 0 = Inr (Num 0) \<and>
   get_cell \<lparr>arrays = empty_store(0 := [Num 0, Num 0], 1 := [Num 0, Num 0]),
              grid = [0, 0], grid_normals = [1, 1]\<rparr> [0, 0] 0 1 = Inr (Num 0) \<and>
   get_cell \<lparr>arrays = empty_store(0 := [Num 0, Num 0], 1 := [Num 0, Num 0]),
              grid = [0, 0], grid_normals = [1, 1]\<rparr> [0, 0] 1 0 = Inr (Num 0) \<and>
   get_cell \<lparr>arrays = empty_store(0 := [Num 0, Num 0], 1 := [Num 0, Num 0]),
              grid = [0, 0], grid_normals = [1, 1]\<rparr> [0, 0] 1 1 = Inr (Num 0) \<and>
   (\<exists>st'. normalize_heights 2
             \<lparr>arrays = empty_store(0 := [Num 0, Num 0], 1 := [Num 0, Num 0]),
                grid = [0, 0], grid_normals = [1, 1]\<rparr> = Inr st' \<and>
          get_cell st' (grid st') 0 0 = Inr NaN \<and> get_cell st' (grid st') 0 1 = Inr NaN \<and>
          get_cell st' (grid st') 1 0 = Inr NaN \<and> get_cell st' (grid st') 1 1 = Inr NaN)"
proof -
  let ?S = "\<lparr>arrays = empty_store(0 := [Num 0, Num 0], 1 := [Num 0, Num 0]),
             grid = [0, 0], grid_normals = [1, 1]\<rparr>"
  have cells: "get_cell ?S [0, 0] 0 0 = Inr (Num 0)" "get_cell ?S [0, 0] 0 1 = Inr (Num 0)"
    "get_cell ?S [0, 0] 1 0 = Inr (Num 0)" "get_cell ?S [0, 0] 1 1 = Inr (Num 0)"
    by (simp_all add: get_cell_def)
  have flat: "\<forall>i<2. \<forall>j<2. get_cell ?S (grid ?S) i j = Inr (Num 0)"
    using cells by (simp add: all_less_2)
  from normalize_heights_flat [OF pipeline_state_2 _ flat]
  obtain st' where n: "normalize_heights 2 ?S = Inr st'"
    and a: "\<forall>i<2. \<forall>j<2. get_cell st' (grid st') i j = Inr NaN" by auto
  from a have "get_cell st' (grid st') 0 0 = Inr NaN \<and> get_cell st' (grid st') 0 1 = Inr NaN \<and>
          get_cell st' (grid st') 1 0 = Inr NaN \<and> get_cell st' (grid st') 1 1 = Inr NaN"
    by (simp add: all_less_2)
  with n have "\<exists>st'. normalize_heights 2 ?S = Inr st' \<and>
          get_cell st' (grid st') 0 0 = Inr NaN \<and> get_cell st' (grid st') 0 1 = Inr NaN \<and>
          get_cell st' (grid st') 1 0 = Inr NaN \<and> get_cell st' (grid st') 1 1 = Inr NaN"
    by blast
  with pipeline_state_2 cells show ?thesis by simp
qed

section \<open>Grid-based normals\<close>

lemma index2_number: "index2 (JNumber x) i j = Inl TypeError"
  by (simp add: index2_def bindE_def)

lemma normal_vertex_TypeError: "normal_vertex gridsize i j st = Inl TypeError"
  by (simp add: normal_vertex_def Let_def index2_number bindE_simps)
text \<open>
  C3. The specification has the normal of each vertex computed from its four
  neighbours in the grid, clamped at the boundary, as a normalized cross product. The
  code reads the neighbours from \<open>gridsize\<close>, a number: \<open>gridsize[i]\<close> is \<open>undefined\<close>, and
  \<open>gridsize[i][j]\<close> throws a \<open>TypeError\<close> at the first vertex. For every grid size above
  zero the normals pass throws, and no normal is ever stored.
\<close>

theorem compute_normals_throws:
  "0 < gridsize \<Longrightarrow> compute_normals gridsize st = Inl TypeError"
  by (simp add: compute_normals_def for_loop_step normal_vertex_TypeError)

theorem compute_normals_throws_witness:
  "(0::nat) < 2 \<and>
   compute_normals 2 \<lparr>arrays = empty_store(0 := [NaN, NaN], 1 := [Num 0, Num 0]),
                        grid = [0, 0], grid_normals = [1, 1]\<rparr> = Inl TypeError"
  using compute_normals_throws [of 2 "\<lparr>arrays = empty_store(0 := [NaN, NaN], 1 := [Num 0, Num 0]),
                        grid = [0, 0], grid_normals = [1, 1]\<rparr>"]
  by simp

section \<open>The click handler as a whole\<close>

text \<open>
  Every grid size that passes the allocation is above zero, so the normals pass always
  throws: the handler ends in an exception or does not end, for every input.
\<close>

lemma click_handler_never_completes:
  "click_handler L rnd gridsize_value faults_value \<noteq> Some (Inr st)"
proof
  assume c: "click_handler L rnd gridsize_value faults_value = Some (Inr st)"
  then obtain st0 st1 where
    g: "new_grids (gridsize_input gridsize_value) = Inr st0"
    and r: "bindE (normalize_heights (length (grid st0)) st1) (compute_normals (length (grid st0)))
            = Inr st"
    by (auto simp: click_handler_def Let_def split: sum.splits option.splits)
  from g obtain x where x: "gridsize_input gridsize_value = Num x" and
    n: "length (grid st0) = nat \<lfloor>x\<rfloor>" and i: "x = of_int \<lfloor>x\<rfloor>" and x0: "0 \<le> x"
    by (auto simp: new_grids_def new_Array_def bindE_def split: jsnum.splits if_splits)
  from x have "x \<noteq> 0" by (auto simp: gridsize_input_def js_or_def split: if_splits)
  with i x0 have "0 < nat \<lfloor>x\<rfloor>" by (metis of_int_0 zero_less_nat_eq less_le zero_le_floor)
  with n have "compute_normals (length (grid st0)) s = Inl TypeError" for s
    by (simp add: compute_normals_def for_loop_step normal_vertex_TypeError)
  with r show False by (auto simp: bindE_def split: sum.splits)
qed

lemma click_handler_defaults:
  "click_handler L rnd NaN NaN = Some (Inl TypeError)"
proof -
  have gi: "gridsize_input NaN = Num 2" and fi: "faults_input NaN = Num 0"
    by (simp_all add: gridsize_input_def faults_input_def js_or_def)
  have len: "length (grid \<lparr>arrays = empty_store(0 := [Num 0, Num 0], 1 := [Num 0, Num 0]),
                            grid = [0, 0], grid_normals = [1, 1]\<rparr>) = 2"
    by simp
  have f: "fault_loop L rnd 2 (Num 0) (Num 0) 0 s = Some (Inr s)" for s
    by (subst fault_loop.simps) simp
  have c: "compute_normals 2 s = Inl TypeError" for s
    by (simp add: compute_normals_def for_loop_step normal_vertex_TypeError)
  show ?thesis
    unfolding click_handler_def Let_def gi fi new_grids_2
    by (simp only: sum.case len f option.case normalize_heights_2 bindE_simps c)
qed

end
